theory Spec2Isabelle
  imports Complex_Main
begin

section \<open>GPS Rescue: data model\<close>

text \<open>
  The GPS Rescue controller of the flight controller firmware
  (the second document of \<^verbatim>\<open>src/main/drivers/at32/timer_at32f43x.c\<close>,
  lines 129 to 1017, the body of \<^verbatim>\<open>gps_rescue.c\<close>).

  Conventions of the embedding.
  \<^item> A C \<^verbatim>\<open>float\<close> is a \<^typ>\<open>real\<close>: arithmetic is exact, there is no
    rounding, no overflow and no NaN. The one float division whose divisor a
    property below depends on (the stuck-altitude ratio of
    \<^verbatim>\<open>performSanityChecks\<close>) is modelled with its IEEE results for a zero
    divisor written out (\<open>divf\<close>). Every other division is the division of
    \<^typ>\<open>real\<close>.
  \<^item> File-scope variables and function-local \<^verbatim>\<open>static\<close> variables are fields
    of one state record, passed through every function and returned updated.
  \<^item> What the module reads from its collaborators during one call of
    \<^verbatim>\<open>gpsRescueUpdate\<close> (flags, sensors, the clock) is one record of inputs.
  \<^item> Calls into the arming layer (\<^verbatim>\<open>setArmingDisabled\<close>, \<^verbatim>\<open>disarm\<close>) are
    appended to a log kept in the state.
  \<^item> \<^verbatim>\<open>DEBUG_SET\<close> lines write debug output only and are left out.
\<close>

datatype rescuePhase_e =
    RESCUE_IDLE
  | RESCUE_INITIALIZE
  | RESCUE_ATTAIN_ALT
  | RESCUE_ROTATE
  | RESCUE_FLY_HOME
  | RESCUE_DESCENT
  | RESCUE_LANDING
  | RESCUE_ABORT
  | RESCUE_COMPLETE
  | RESCUE_DO_NOTHING

datatype rescueFailureState_e =
    RESCUE_HEALTHY
  | RESCUE_FLYAWAY
  | RESCUE_GPSLOST
  | RESCUE_LOWSATS
  | RESCUE_CRASH_FLIP_DETECTED
  | RESCUE_STALLED
  | RESCUE_TOO_CLOSE
  | RESCUE_NO_HOME_POINT

record rescueIntent_s =
  maxAltitudeCm :: real
  returnAltitudeCm :: real
  targetAltitudeCm :: real
  targetLandingAltitudeCm :: real
  targetVelocityCmS :: real
  pitchAngleLimitDeg :: real
  rollAngleLimitDeg :: real
  descentDistanceM :: real
  secondsFailing :: int
  altitudeStep :: real
  descentRateModifier :: real
  yawAttenuator :: real
  disarmThreshold :: real
  velocityITermAccumulator :: real
  velocityPidCutoff :: real
  velocityPidCutoffModifier :: real
  proximityToLandingArea :: real
  velocityItermRelax :: real

record rescueSensorData_s =
  currentAltitudeCm :: real
  distanceToHomeCm :: real
  distanceToHomeM :: real
  groundSpeedCmS :: int
  directionToHome :: int
  accMagnitude :: real
  healthy :: bool
  errorAngle :: real
  gpsDataIntervalSeconds :: real
  altitudeDataIntervalSeconds :: real
  gpsRescueTaskIntervalSeconds :: real
  velocityToHomeCmS :: real
  alitutudeStepCm :: real
  maxPitchStep :: real
  absErrorAngle :: real

record rescueState_s =
  phase :: rescuePhase_e
  failure :: rescueFailureState_e
  sensor :: rescueSensorData_s
  intent :: rescueIntent_s
  isAvailable :: bool

subsection \<open>Configuration\<close>

text \<open>
  The parameter groups are declared in headers that are not among the sources;
  the fields are the ones the code reads, integer fields as \<^typ>\<open>int\<close>.
  Their names carry the prefix \<open>cfg_\<close>, since several are also names of
  state fields.
\<close>

datatype gpsRescueSanity_e = RESCUE_SANITY_OFF | RESCUE_SANITY_ON | RESCUE_SANITY_FS_ONLY

datatype gpsRescueAltitudeMode_e =
  GPS_RESCUE_ALT_MODE_MAX | GPS_RESCUE_ALT_MODE_FIXED | GPS_RESCUE_ALT_MODE_CURRENT

record gpsRescueConfig_t =
  cfg_throttleP :: int
  cfg_throttleI :: int
  cfg_throttleD :: int
  cfg_throttleHover :: int
  cfg_throttleMin :: int
  cfg_throttleMax :: int
  cfg_yawP :: int
  cfg_rollMix :: int
  cfg_velP :: int
  cfg_velI :: int
  cfg_velD :: int
  cfg_pitchCutoffHz :: int
  cfg_initialAltitudeM :: int
  cfg_rescueAltitudeBufferM :: int
  cfg_altitudeMode :: gpsRescueAltitudeMode_e
  cfg_sanityChecks :: gpsRescueSanity_e
  cfg_allowArmingWithoutFix :: bool
  cfg_useMag :: bool
  cfg_minRescueDth :: int
  cfg_targetLandingAltitudeM :: int
  cfg_descentDistanceM :: int
  cfg_descendRate :: int
  cfg_ascendRate :: int
  cfg_rescueGroundspeed :: int
  cfg_maxRescueAngle :: int
  cfg_disarmThreshold :: int

text \<open>
  The other configuration the module reads, and the build constants whose
  definitions are not among the sources:
  \<open>TASK_INTERVAL\<close> is the value of
  \<^verbatim>\<open>HZ_TO_INTERVAL(TASK_GPS_RESCUE_RATE_HZ)\<close>, \<open>USE_MAG\<close> says whether the
  code under \<^verbatim>\<open>#ifdef USE_MAG\<close> is compiled.
\<close>

record config =
  gpsRescueConfig :: gpsRescueConfig_t
  altitude_d_lpf :: int
  gps_set_home_point_once :: bool
  yaw_control_reversed :: bool
  TASK_INTERVAL :: real
  GPS_MIN_SAT_COUNT :: int
  USE_MAG :: bool

subsection \<open>Inputs of one call of the task\<close>

record tick_inputs =
  FLIGHT_MODE_GPS_RESCUE :: bool
  ARMING_FLAG_ARMED :: bool
  STATE_GPS_FIX :: bool
  STATE_GPS_FIX_HOME :: bool
  sensors_SENSOR_MAG :: bool
  rxIsReceivingSignal :: bool
  crashRecoveryModeActive :: bool
  gpsIsHealthy :: bool
  rcCommand_THROTTLE :: real
  getCosTiltAngle :: real
  getAltitude :: real
  attitude_yaw :: int
  accADC_X :: real
  accADC_Y :: real
  accADC_Z :: real
  acc_1G :: int
  acc_1G_rec :: real
  gpsSol_numSat :: int
  gpsSol_groundSpeed :: int
  GPS_directionToHome :: int
  GPS_distanceToHomeCm :: int
  getGpsDataIntervalSeconds :: real
  micros_start :: int
  micros_sensor :: int
  micros_available :: int
  micros_sanity :: int

subsection \<open>Module state\<close>

datatype angle_index_t = AI_ROLL | AI_PITCH

record pt1Filter_t =
  pt1_state :: real
  pt1_k :: real

record pt2Filter_t =
  pt2_state :: real
  pt2_state1 :: real
  pt2_k :: real

record pt3Filter_t =
  pt3_state :: real
  pt3_state1 :: real
  pt3_state2 :: real
  pt3_k :: real

text \<open>The \<^verbatim>\<open>static\<close> variables of \<^verbatim>\<open>rescueAttainPosition\<close>.\<close>

record attain_statics =
  previousVelocityError :: real
  velocityI :: real
  throttleI :: real
  previousAltitudeError :: real
  throttleAdjustment :: int
  pitchAdjustment :: real

text \<open>The \<^verbatim>\<open>static\<close> variables of \<^verbatim>\<open>performSanityChecks\<close>.\<close>

record sanity_statics =
  previousTimeUs :: int
  prevAltitudeCm :: real
  prevTargetAltitudeCm :: real
  previousDistanceToHomeCm :: real
  secondsLowSats :: int
  secondsDoingNothing :: int

text \<open>The \<^verbatim>\<open>static\<close> variables of \<^verbatim>\<open>sensorUpdate\<close>.\<close>

record sensor_statics =
  prevDistanceToHomeCm :: real
  previousAltitudeDataTimeUs :: int

text \<open>The \<^verbatim>\<open>static\<close> variables of \<^verbatim>\<open>checkGPSRescueIsAvailable\<close>.\<close>

record available_statics =
  previousTimeUs_available :: int
  secondsLowSats_available :: int
  lowsats :: bool
  noGPSfix :: bool

text \<open>The calls into the arming layer, in the order they are made.\<close>

datatype disarmReason_e =
  DISARM_REASON_CRASH_PROTECTION | DISARM_REASON_GPS_RESCUE | DISARM_REASON_FAILSAFE

datatype arming_call =
    setArmingDisabled_ARM_SWITCH
  | disarm disarmReason_e

record module_state =
  rescueState :: rescueState_s
  rescueThrottle :: real
  rescueYaw :: real
  gpsRescueAngle :: "angle_index_t \<Rightarrow> real"
  magForceDisable :: bool
  newGPSData :: bool
  throttleDLpf :: pt2Filter_t
  velocityDLpf :: pt1Filter_t
  velocityUpsampleLpf :: pt3Filter_t
  attain :: attain_statics
  sanity :: sanity_statics
  sensorStatics :: sensor_statics
  availableStatics :: available_statics
  initialAltitudeLow :: bool
  initialVelocityLow :: bool
  calls :: "arming_call list"

text \<open>Shorthands for reading and writing the nested \<^verbatim>\<open>rescueState\<close>.\<close>

definition phaseOf :: "module_state \<Rightarrow> rescuePhase_e" where
  "phaseOf s = phase (rescueState s)"

definition failureOf :: "module_state \<Rightarrow> rescueFailureState_e" where
  "failureOf s = failure (rescueState s)"

definition sensorOf :: "module_state \<Rightarrow> rescueSensorData_s" where
  "sensorOf s = sensor (rescueState s)"

definition intentOf :: "module_state \<Rightarrow> rescueIntent_s" where
  "intentOf s = intent (rescueState s)"

definition set_phase :: "rescuePhase_e \<Rightarrow> module_state \<Rightarrow> module_state" where
  "set_phase p s = s\<lparr>rescueState := (rescueState s)\<lparr>phase := p\<rparr>\<rparr>"

definition set_failure :: "rescueFailureState_e \<Rightarrow> module_state \<Rightarrow> module_state" where
  "set_failure f s = s\<lparr>rescueState := (rescueState s)\<lparr>failure := f\<rparr>\<rparr>"

definition set_sensor ::
  "(rescueSensorData_s \<Rightarrow> rescueSensorData_s) \<Rightarrow> module_state \<Rightarrow> module_state" where
  "set_sensor f s = s\<lparr>rescueState := (rescueState s)\<lparr>sensor := f (sensor (rescueState s))\<rparr>\<rparr>"

definition set_intent ::
  "(rescueIntent_s \<Rightarrow> rescueIntent_s) \<Rightarrow> module_state \<Rightarrow> module_state" where
  "set_intent f s = s\<lparr>rescueState := (rescueState s)\<lparr>intent := f (intent (rescueState s))\<rparr>\<rparr>"

definition set_sanity ::
  "(sanity_statics \<Rightarrow> sanity_statics) \<Rightarrow> module_state \<Rightarrow> module_state" where
  "set_sanity f s = s\<lparr>sanity := f (sanity s)\<rparr>"

definition set_attain ::
  "(attain_statics \<Rightarrow> attain_statics) \<Rightarrow> module_state \<Rightarrow> module_state" where
  "set_attain f s = s\<lparr>attain := f (attain s)\<rparr>"

definition add_calls :: "arming_call list \<Rightarrow> module_state \<Rightarrow> module_state" where
  "add_calls cs s = s\<lparr>calls := calls s @ cs\<rparr>"

section \<open>Helpers from the common library\<close>

text \<open>
  Modelled from the spec: \<^verbatim>\<open>constrainf\<close> and \<^verbatim>\<open>constrain\<close> of
  \<^verbatim>\<open>common/maths.h\<close>, which is not among the sources. The spec calls them
  "clamped to [low, high]"; the lower bound is tested first.
\<close>

definition constrainf :: "real \<Rightarrow> real \<Rightarrow> real \<Rightarrow> real" where
  "constrainf amt low high = (if amt < low then low else if amt > high then high else amt)"

definition constrain :: "int \<Rightarrow> int \<Rightarrow> int \<Rightarrow> int" where
  "constrain amt low high = (if amt < low then low else if amt > high then high else amt)"

text \<open>A value stored into an \<^verbatim>\<open>int8_t\<close> or \<^verbatim>\<open>int16_t\<close> variable wraps around.\<close>

definition int8_t :: "int \<Rightarrow> int" where
  "int8_t x = (x + 128) mod 256 - 128"

definition int16_t :: "int \<Rightarrow> int" where
  "int16_t x = (x + 32768) mod 65536 - 32768"

text \<open>
  The conversion of a float to an integer type truncates towards zero
  (the assignment to \<^verbatim>\<open>throttleAdjustment\<close>).
\<close>

definition truncf :: "real \<Rightarrow> int" where
  "truncf x = (if 0 \<le> x then \<lfloor>x\<rfloor> else \<lceil>x\<rceil>)"

text \<open>
  Modelled from the spec: \<^verbatim>\<open>cmpTimeUs\<close> of \<^verbatim>\<open>common/time.h\<close>, which is not
  among the sources, is the wall-clock delta in microseconds
  ("\<open>(now - prevTick)\<close>").
\<close>

definition cmpTimeUs :: "int \<Rightarrow> int \<Rightarrow> int" where
  "cmpTimeUs a b = a - b"

text \<open>
  Modelled from the spec: the low-pass filters of \<^verbatim>\<open>common/filter.c\<close>, which is
  not among the sources (spec 4.1). The gain is \<open>dt / (dt + 1 / (2 \<pi> f\<^sub>c))\<close>; a
  PT1 applies \<open>y \<leftarrow> y + g (x - y)\<close>; a PT2 is two cascaded PT1 sections, a PT3
  three. Each apply function returns the filter and its output.
\<close>

definition pt1FilterGain :: "real \<Rightarrow> real \<Rightarrow> real" where
  "pt1FilterGain f_cut dT = dT / (dT + 1 / (2 * pi * f_cut))"

definition pt2FilterGain :: "real \<Rightarrow> real \<Rightarrow> real" where
  "pt2FilterGain f_cut dT = dT / (dT + 1 / (2 * pi * f_cut))"

definition pt3FilterGain :: "real \<Rightarrow> real \<Rightarrow> real" where
  "pt3FilterGain f_cut dT = dT / (dT + 1 / (2 * pi * f_cut))"

definition pt1FilterInit :: "real \<Rightarrow> pt1Filter_t" where
  "pt1FilterInit k = \<lparr>pt1_state = 0, pt1_k = k\<rparr>"

definition pt2FilterInit :: "real \<Rightarrow> pt2Filter_t" where
  "pt2FilterInit k = \<lparr>pt2_state = 0, pt2_state1 = 0, pt2_k = k\<rparr>"

definition pt3FilterInit :: "real \<Rightarrow> pt3Filter_t" where
  "pt3FilterInit k = \<lparr>pt3_state = 0, pt3_state1 = 0, pt3_state2 = 0, pt3_k = k\<rparr>"

definition pt1FilterUpdateCutoff :: "pt1Filter_t \<Rightarrow> real \<Rightarrow> pt1Filter_t" where
  "pt1FilterUpdateCutoff f k = f\<lparr>pt1_k := k\<rparr>"

definition pt1FilterApply :: "pt1Filter_t \<Rightarrow> real \<Rightarrow> pt1Filter_t \<times> real" where
  "pt1FilterApply f x =
     (let y = pt1_state f + pt1_k f * (x - pt1_state f)
      in (f\<lparr>pt1_state := y\<rparr>, y))"

definition pt2FilterApply :: "pt2Filter_t \<Rightarrow> real \<Rightarrow> pt2Filter_t \<times> real" where
  "pt2FilterApply f x =
     (let y1 = pt2_state1 f + pt2_k f * (x - pt2_state1 f);
          y = pt2_state f + pt2_k f * (y1 - pt2_state f)
      in (f\<lparr>pt2_state1 := y1, pt2_state := y\<rparr>, y))"

definition pt3FilterApply :: "pt3Filter_t \<Rightarrow> real \<Rightarrow> pt3Filter_t \<times> real" where
  "pt3FilterApply f x =
     (let y1 = pt3_state1 f + pt3_k f * (x - pt3_state1 f);
          y2 = pt3_state2 f + pt3_k f * (y1 - pt3_state2 f);
          y = pt3_state f + pt3_k f * (y2 - pt3_state f)
      in (f\<lparr>pt3_state1 := y1, pt3_state2 := y2, pt3_state := y\<rparr>, y))"

text \<open>
  The result of a float division with the case of a zero divisor written out:
  a positive dividend gives \<open>+\<infinity>\<close>, a negative one \<open>-\<infinity>\<close>, and \<open>0 / 0\<close> is
  not a number. \<open>fquot_gt q c\<close> is the C comparison \<^verbatim>\<open>q > c\<close>, which is false
  for a NaN.
\<close>

datatype fquot = Finite real | PosInf | NegInf | NaN

definition divf :: "real \<Rightarrow> real \<Rightarrow> fquot" where
  "divf a b =
     (if b = 0 then (if 0 < a then PosInf else if a < 0 then NegInf else NaN)
      else Finite (a / b))"

definition fquot_gt :: "fquot \<Rightarrow> real \<Rightarrow> bool" where
  "fquot_gt q c = (case q of Finite r \<Rightarrow> c < r | PosInf \<Rightarrow> True | NegInf \<Rightarrow> False | NaN \<Rightarrow> False)"

section \<open>The module's functions\<close>

text \<open>
  The state before any call: C zero-initialises file-scope and static
  variables; \<^verbatim>\<open>initialAltitudeLow\<close> and \<^verbatim>\<open>initialVelocityLow\<close> start
  \<^verbatim>\<open>true\<close>.
\<close>

definition zeroIntent :: rescueIntent_s where
  "zeroIntent = \<lparr>maxAltitudeCm = 0, returnAltitudeCm = 0, targetAltitudeCm = 0,
     targetLandingAltitudeCm = 0, targetVelocityCmS = 0, pitchAngleLimitDeg = 0,
     rollAngleLimitDeg = 0, descentDistanceM = 0, secondsFailing = 0, altitudeStep = 0,
     descentRateModifier = 0, yawAttenuator = 0, disarmThreshold = 0,
     velocityITermAccumulator = 0, velocityPidCutoff = 0, velocityPidCutoffModifier = 0,
     proximityToLandingArea = 0, velocityItermRelax = 0\<rparr>"

definition zeroSensor :: rescueSensorData_s where
  "zeroSensor = \<lparr>currentAltitudeCm = 0, distanceToHomeCm = 0, distanceToHomeM = 0,
     groundSpeedCmS = 0, directionToHome = 0, accMagnitude = 0, healthy = False,
     errorAngle = 0, gpsDataIntervalSeconds = 0, altitudeDataIntervalSeconds = 0,
     gpsRescueTaskIntervalSeconds = 0, velocityToHomeCmS = 0, alitutudeStepCm = 0,
     maxPitchStep = 0, absErrorAngle = 0\<rparr>"

definition zeroState :: module_state where
  "zeroState = \<lparr>
     rescueState = \<lparr>phase = RESCUE_IDLE, failure = RESCUE_HEALTHY, sensor = zeroSensor,
       intent = zeroIntent, isAvailable = False\<rparr>,
     rescueThrottle = 0, rescueYaw = 0, gpsRescueAngle = (\<lambda>_. 0),
     magForceDisable = False, newGPSData = False,
     throttleDLpf = pt2FilterInit 0, velocityDLpf = pt1FilterInit 0,
     velocityUpsampleLpf = pt3FilterInit 0,
     attain = \<lparr>previousVelocityError = 0, velocityI = 0, throttleI = 0,
       previousAltitudeError = 0, throttleAdjustment = 0, pitchAdjustment = 0\<rparr>,
     sanity = \<lparr>previousTimeUs = 0, prevAltitudeCm = 0, prevTargetAltitudeCm = 0,
       previousDistanceToHomeCm = 0, secondsLowSats = 0, secondsDoingNothing = 0\<rparr>,
     sensorStatics = \<lparr>prevDistanceToHomeCm = 0, previousAltitudeDataTimeUs = 0\<rparr>,
     availableStatics = \<lparr>previousTimeUs_available = 0, secondsLowSats_available = 0,
       lowsats = False, noGPSfix = False\<rparr>,
     initialAltitudeLow = True, initialVelocityLow = True, calls = []\<rparr>"

definition gpsRescueInit :: "config \<Rightarrow> module_state \<Rightarrow> module_state" where
  "gpsRescueInit cfg s =
     (let dt = TASK_INTERVAL cfg;
          s1 = set_sensor (\<lambda>x. x\<lparr>gpsRescueTaskIntervalSeconds := dt\<rparr>) s;
          cutoffHz = real_of_int (altitude_d_lpf cfg) / 100;
          s2 = s1\<lparr>throttleDLpf := pt2FilterInit (pt2FilterGain cutoffHz dt)\<rparr>;
          cutoffHz = real_of_int (cfg_pitchCutoffHz (gpsRescueConfig cfg)) / 100;
          s3 = set_intent (\<lambda>i. i\<lparr>velocityPidCutoff := cutoffHz,
                 velocityPidCutoffModifier := 1\<rparr>) s2;
          s4 = s3\<lparr>velocityDLpf := pt1FilterInit (pt1FilterGain cutoffHz 1)\<rparr>;
          cutoffHz = cutoffHz * 4
      in s4\<lparr>velocityUpsampleLpf := pt3FilterInit (pt3FilterGain cutoffHz dt)\<rparr>)"

definition gpsRescueNewGpsData :: "module_state \<Rightarrow> module_state" where
  "gpsRescueNewGpsData s = s\<lparr>newGPSData := True\<rparr>"

definition rescueStart :: "module_state \<Rightarrow> module_state" where
  "rescueStart s = set_phase RESCUE_INITIALIZE s"

definition rescueStop :: "module_state \<Rightarrow> module_state" where
  "rescueStop s = set_phase RESCUE_IDLE s"

text \<open>\<^verbatim>\<open>setReturnAltitude\<close> (lines 307 to 339).\<close>

definition setReturnAltitude :: "config \<Rightarrow> tick_inputs \<Rightarrow> module_state \<Rightarrow> module_state" where
  "setReturnAltitude cfg inp s =
     (if \<not> ARMING_FLAG_ARMED inp \<and> \<not> gps_set_home_point_once cfg
      then set_intent (\<lambda>i. i\<lparr>maxAltitudeCm := 0\<rparr>) s
      else
        let c = gpsRescueConfig cfg;
            alt = currentAltitudeCm (sensorOf s);
            maxAlt = max alt (maxAltitudeCm (intentOf s));
            s1 = set_intent (\<lambda>i. i\<lparr>maxAltitudeCm := maxAlt\<rparr>) s
        in if newGPSData s1 then
             let initialAltitudeCm = real_of_int (cfg_initialAltitudeM c) * 100;
                 rescueAltitudeBufferCm = real_of_int (cfg_rescueAltitudeBufferM c) * 100
             in set_intent (\<lambda>i. i\<lparr>
                  targetAltitudeCm := alt,
                  descentDistanceM :=
                    constrainf (distanceToHomeM (sensorOf s1)) 5 (real_of_int (cfg_descentDistanceM c)),
                  returnAltitudeCm :=
                    (case cfg_altitudeMode c of
                       GPS_RESCUE_ALT_MODE_FIXED \<Rightarrow> initialAltitudeCm
                     | GPS_RESCUE_ALT_MODE_CURRENT \<Rightarrow> alt + rescueAltitudeBufferCm
                     | GPS_RESCUE_ALT_MODE_MAX \<Rightarrow> maxAlt + rescueAltitudeBufferCm)\<rparr>) s1
           else s1)"

text \<open>
  \<^verbatim>\<open>rescueAttainPosition\<close> (lines 341 to 506). After the \<^verbatim>\<open>switch\<close> on the
  phase come the three controllers, each a definition of its own here:
  altitude (lines 376 to 414), heading (lines 416 to 445) and velocity
  (lines 447 to 501).
\<close>

definition rescueAttainPosition_altitude ::
  "config \<Rightarrow> tick_inputs \<Rightarrow> module_state \<Rightarrow> module_state" where
  "rescueAttainPosition_altitude cfg inp s =
     (let c = gpsRescueConfig cfg;
          dt = altitudeDataIntervalSeconds (sensorOf s);
          altitudeError = (targetAltitudeCm (intentOf s) - currentAltitudeCm (sensorOf s)) * 0.01;
          throttleP = real_of_int (cfg_throttleP c) * altitudeError;
          tI = constrainf
                 (throttleI (attain s) + 0.1 * real_of_int (cfg_throttleI c) * altitudeError * dt)
                 (- 200) 200;
          verticalSpeed = (altitudeError - previousAltitudeError (attain s)) / dt;
          verticalSpeed = verticalSpeed + descentRateModifier (intentOf s) * verticalSpeed;
          (lpf, throttleD) = pt2FilterApply (throttleDLpf s) verticalSpeed;
          throttleD = real_of_int (cfg_throttleD c) * throttleD;
          tiltAdjustment = (1 - getCosTiltAngle inp) * real_of_int (cfg_throttleHover c - 1000);
          adj = int16_t (truncf (throttleP + tI + throttleD + tiltAdjustment))
      in s\<lparr>throttleDLpf := lpf,
           attain := (attain s)\<lparr>throttleI := tI, previousAltitudeError := altitudeError,
                       throttleAdjustment := adj\<rparr>,
           rescueThrottle :=
             constrainf (real_of_int (cfg_throttleHover c + adj))
               (real_of_int (cfg_throttleMin c)) (real_of_int (cfg_throttleMax c))\<rparr>)"

text \<open>
  Modelled from the spec: \<^verbatim>\<open>GET_DIRECTION\<close> is not among the sources; "the
  sign of rescueYaw is finally flipped by the pilot's yaw-reversed flag".
\<close>

definition GET_DIRECTION :: "bool \<Rightarrow> real" where
  "GET_DIRECTION isReversed = (if isReversed then - 1 else 1)"

definition rescueAttainPosition_heading :: "config \<Rightarrow> module_state \<Rightarrow> module_state" where
  "rescueAttainPosition_heading cfg s =
     (let c = gpsRescueConfig cfg;
          yaw = constrainf
                  (errorAngle (sensorOf s) * real_of_int (cfg_yawP c) * yawAttenuator (intentOf s) * 0.1)
                  (- 180) 180;
          rollMixAttenuator = constrainf (1 - \<bar>yaw\<bar> * 0.01) 0 1;
          rollAdjustment = - yaw * real_of_int (cfg_rollMix c) * rollMixAttenuator;
          rollLimit = 100 * rollAngleLimitDeg (intentOf s)
      in s\<lparr>gpsRescueAngle := (gpsRescueAngle s)(AI_ROLL := constrainf rollAdjustment (- rollLimit) rollLimit),
           rescueYaw := yaw * GET_DIRECTION (yaw_control_reversed cfg)\<rparr>)"

definition rescueAttainPosition_velocity :: "config \<Rightarrow> module_state \<Rightarrow> module_state" where
  "rescueAttainPosition_velocity cfg s =
     (let c = gpsRescueConfig cfg;
          s1 =
            (if newGPSData s then
               let sampleIntervalNormaliseFactor = gpsDataIntervalSeconds (sensorOf s) * 10;
                   velocityError = targetVelocityCmS (intentOf s) - velocityToHomeCmS (sensorOf s);
                   velocityP = velocityError * real_of_int (cfg_velP c);
                   vI = velocityI (attain s)
                        + 0.01 * real_of_int (cfg_velI c) * velocityError
                          * sampleIntervalNormaliseFactor * velocityItermRelax (intentOf s);
                   vI = vI * proximityToLandingArea (intentOf s);
                   pitchAngleLimit = pitchAngleLimitDeg (intentOf s) * 100;
                   velocityPILimit = 0.5 * pitchAngleLimit;
                   vI = constrainf vI (- velocityPILimit) velocityPILimit;
                   velocityD = (velocityError - previousVelocityError (attain s))
                               / sampleIntervalNormaliseFactor;
                   velocityD = velocityD * real_of_int (cfg_velD c);
                   cutoffHz = velocityPidCutoff (intentOf s) * velocityPidCutoffModifier (intentOf s);
                   gain = pt1FilterGain cutoffHz (gpsDataIntervalSeconds (sensorOf s));
                   (lpf, velocityD) = pt1FilterApply (pt1FilterUpdateCutoff (velocityDLpf s) gain) velocityD
               in s\<lparr>velocityDLpf := lpf,
                    attain := (attain s)\<lparr>velocityI := vI, previousVelocityError := velocityError,
                      pitchAdjustment :=
                        constrainf (velocityP + vI + velocityD) (- pitchAngleLimit) pitchAngleLimit\<rparr>\<rparr>
             else s);
          (lpf3, pitchAdjustmentFiltered) =
             pt3FilterApply (velocityUpsampleLpf s1) (pitchAdjustment (attain s1))
      in s1\<lparr>velocityUpsampleLpf := lpf3,
            gpsRescueAngle := (gpsRescueAngle s1)(AI_PITCH := pitchAdjustmentFiltered)\<rparr>)"

definition rescueAttainPosition :: "config \<Rightarrow> tick_inputs \<Rightarrow> module_state \<Rightarrow> module_state" where
  "rescueAttainPosition cfg inp s =
     (case phaseOf s of
        RESCUE_IDLE \<Rightarrow>
          s\<lparr>gpsRescueAngle := (gpsRescueAngle s)(AI_PITCH := 0, AI_ROLL := 0),
            rescueThrottle := rcCommand_THROTTLE inp\<rparr>
      | RESCUE_INITIALIZE \<Rightarrow>
          set_intent
            (\<lambda>i. i\<lparr>disarmThreshold := real_of_int (cfg_disarmThreshold (gpsRescueConfig cfg)) / 10\<rparr>)
            (s\<lparr>attain := (attain s)\<lparr>previousVelocityError := 0, velocityI := 0, throttleI := 0,
                 previousAltitudeError := 0, throttleAdjustment := 0\<rparr>\<rparr>)
      | RESCUE_DO_NOTHING \<Rightarrow>
          s\<lparr>gpsRescueAngle := (gpsRescueAngle s)(AI_PITCH := 0, AI_ROLL := 0),
            rescueThrottle := real_of_int (cfg_throttleHover (gpsRescueConfig cfg) - 100)\<rparr>
      | _ \<Rightarrow>
          rescueAttainPosition_velocity cfg
            (rescueAttainPosition_heading cfg (rescueAttainPosition_altitude cfg inp s)))"

text \<open>
  \<^verbatim>\<open>performSanityChecks\<close> (lines 508 to 650), in the order of the source:
  what runs on every call, the 1 Hz gate, and the three 1 Hz checks.
  \<open>now\<close> is the value \<^verbatim>\<open>micros()\<close> returns to this call.
\<close>

text \<open>Lines 534 to 556: the response to a failure state other than healthy.\<close>

definition sanityFailureResponse :: "config \<Rightarrow> tick_inputs \<Rightarrow> module_state \<Rightarrow> module_state" where
  "sanityFailureResponse cfg inp s =
     (let hardFailsafe = \<not> rxIsReceivingSignal inp
      in if failureOf s \<noteq> RESCUE_HEALTHY then
           (case cfg_sanityChecks (gpsRescueConfig cfg) of
              RESCUE_SANITY_ON \<Rightarrow> set_phase RESCUE_ABORT s
            | RESCUE_SANITY_FS_ONLY \<Rightarrow>
                if hardFailsafe then set_phase RESCUE_ABORT s else set_phase RESCUE_DO_NOTHING s
            | RESCUE_SANITY_OFF \<Rightarrow>
                if cfg_allowArmingWithoutFix (gpsRescueConfig cfg) \<and> \<not> STATE_GPS_FIX_HOME inp
                   \<and> hardFailsafe
                then set_phase RESCUE_ABORT s else set_phase RESCUE_DO_NOTHING s)
         else s)"

text \<open>Lines 521 to 569: everything before the 1 Hz gate, for a phase other than idle.\<close>

definition sanityEveryCall :: "config \<Rightarrow> tick_inputs \<Rightarrow> int \<Rightarrow> module_state \<Rightarrow> module_state" where
  "sanityEveryCall cfg inp now s =
     (let s1 = (if phaseOf s = RESCUE_INITIALIZE then
                  s\<lparr>sanity := \<lparr>previousTimeUs = now,
                       prevAltitudeCm = currentAltitudeCm (sensorOf s),
                       prevTargetAltitudeCm = targetAltitudeCm (intentOf s),
                       previousDistanceToHomeCm = distanceToHomeCm (sensorOf s),
                       secondsLowSats = 0, secondsDoingNothing = 0\<rparr>\<rparr>
                else s);
          s2 = sanityFailureResponse cfg inp s1;
          s3 = (if crashRecoveryModeActive inp then
                  rescueStop (add_calls [setArmingDisabled_ARM_SWITCH,
                                         disarm DISARM_REASON_CRASH_PROTECTION] s2)
                else s2)
      in if \<not> healthy (sensorOf s3) then set_failure RESCUE_GPSLOST s3 else s3)"

text \<open>Lines 581 to 599: flyaway detection while flying home.\<close>

definition flyawayCheck :: "config \<Rightarrow> tick_inputs \<Rightarrow> module_state \<Rightarrow> module_state" where
  "flyawayCheck cfg inp s =
     (if phaseOf s = RESCUE_FLY_HOME then
        let velocityToHome = previousDistanceToHomeCm (sanity s) - distanceToHomeCm (sensorOf s);
            s1 = set_sanity (\<lambda>x. x\<lparr>previousDistanceToHomeCm := distanceToHomeCm (sensorOf s)\<rparr>) s;
            sf = int8_t (secondsFailing (intentOf s1)
                   + (if velocityToHome < 0.5 * targetVelocityCmS (intentOf s1) then 1 else - 1));
            sf = int8_t (constrain sf 0 15);
            s2 = set_intent (\<lambda>i. i\<lparr>secondsFailing := sf\<rparr>) s1
        in if sf = 15 then
             (if USE_MAG cfg \<and> sensors_SENSOR_MAG inp \<and> cfg_useMag (gpsRescueConfig cfg)
                 \<and> \<not> magForceDisable s2
              then set_intent (\<lambda>i. i\<lparr>secondsFailing := 0\<rparr>) (s2\<lparr>magForceDisable := True\<rparr>)
              else set_failure RESCUE_FLYAWAY s2)
           else s2
      else s)"

text \<open>Lines 601 to 606: low satellite count.\<close>

definition lowSatsCheck :: "config \<Rightarrow> tick_inputs \<Rightarrow> module_state \<Rightarrow> module_state" where
  "lowSatsCheck cfg inp s =
     (let n = int8_t (secondsLowSats (sanity s)
                + (if \<not> STATE_GPS_FIX inp \<or> gpsSol_numSat inp < GPS_MIN_SAT_COUNT cfg then 1 else - 1));
          n = int8_t (constrain n 0 10);
          s1 = set_sanity (\<lambda>x. x\<lparr>secondsLowSats := n\<rparr>) s
      in if n = 10 then set_failure RESCUE_LOWSATS s1 else s1)"

text \<open>
  Lines 611 to 646: stuck in a climb or a descent. \<open>stuckAltitudeRatio\<close> is
  the local \<^verbatim>\<open>ratio\<close>, \<open>ratioConsumed\<close> says whether the \<^verbatim>\<open>switch\<close> reads it.
\<close>

definition stuckAltitudeRatio :: "module_state \<Rightarrow> fquot" where
  "stuckAltitudeRatio s =
     (let actualAltitudeChange = currentAltitudeCm (sensorOf s) - prevAltitudeCm (sanity s);
          targetAltitudeChange = targetAltitudeCm (intentOf s) - prevTargetAltitudeCm (sanity s)
      in divf actualAltitudeChange targetAltitudeChange)"


definition stuckAltitudeCheck :: "module_state \<Rightarrow> module_state" where
  "stuckAltitudeCheck s =
     (let ratio = stuckAltitudeRatio s;
          s1 = set_sanity (\<lambda>x. x\<lparr>prevAltitudeCm := currentAltitudeCm (sensorOf s),
                                  prevTargetAltitudeCm := targetAltitudeCm (intentOf s)\<rparr>) s;
          sf = int8_t (secondsFailing (intentOf s1) + (if fquot_gt ratio 0.5 then - 1 else 1));
          sf = int8_t (constrain sf 0 10)
      in case phaseOf s1 of
           RESCUE_LANDING \<Rightarrow>
             (let s2 = set_intent (\<lambda>i. i\<lparr>secondsFailing := sf\<rparr>) s1
              in if sf = 10 then set_phase RESCUE_ABORT s2 else s2)
         | RESCUE_ATTAIN_ALT \<Rightarrow>
             (let s2 = set_intent (\<lambda>i. i\<lparr>secondsFailing := sf\<rparr>) s1
              in if sf = 10
                 then set_intent (\<lambda>i. i\<lparr>secondsFailing := 0\<rparr>) (set_phase RESCUE_LANDING s2)
                 else s2)
         | RESCUE_DESCENT \<Rightarrow>
             (let s2 = set_intent (\<lambda>i. i\<lparr>secondsFailing := sf\<rparr>) s1
              in if sf = 10
                 then set_intent (\<lambda>i. i\<lparr>secondsFailing := 0\<rparr>) (set_phase RESCUE_LANDING s2)
                 else s2)
         | RESCUE_DO_NOTHING \<Rightarrow>
             (let n = int8_t (min (secondsDoingNothing (sanity s1) + 1) 20);
                  s2 = set_sanity (\<lambda>x. x\<lparr>secondsDoingNothing := n\<rparr>) s1
              in if n = 20 then set_phase RESCUE_ABORT s2 else s2)
         | _ \<Rightarrow> s1)"

definition performSanityChecks ::
  "config \<Rightarrow> tick_inputs \<Rightarrow> int \<Rightarrow> module_state \<Rightarrow> module_state" where
  "performSanityChecks cfg inp now s =
     (if phaseOf s = RESCUE_IDLE then set_failure RESCUE_HEALTHY s
      else
        let s1 = sanityEveryCall cfg inp now s
        in if cmpTimeUs now (previousTimeUs (sanity s1)) < 1000000 then s1
           else stuckAltitudeCheck
                  (lowSatsCheck cfg inp
                    (flyawayCheck cfg inp (set_sanity (\<lambda>x. x\<lparr>previousTimeUs := now\<rparr>) s1))))"

text \<open>
  The state in which line 611 is reached, if this call of
  \<^verbatim>\<open>performSanityChecks\<close> gets that far: the phase is not idle and a second has
  passed since the last 1 Hz pass.
\<close>

definition sanity1HzEntry ::
  "config \<Rightarrow> tick_inputs \<Rightarrow> int \<Rightarrow> module_state \<Rightarrow> module_state option" where
  "sanity1HzEntry cfg inp now s =
     (if phaseOf s = RESCUE_IDLE then None
      else
        let s1 = sanityEveryCall cfg inp now s
        in if cmpTimeUs now (previousTimeUs (sanity s1)) < 1000000 then None
           else Some (lowSatsCheck cfg inp
                        (flyawayCheck cfg inp (set_sanity (\<lambda>x. x\<lparr>previousTimeUs := now\<rparr>) s1))))"

text \<open>\<^verbatim>\<open>sensorUpdate\<close> (lines 652 to 707).\<close>

definition sensorUpdate :: "tick_inputs \<Rightarrow> module_state \<Rightarrow> module_state" where
  "sensorUpdate inp s =
     (let now = micros_sensor inp;
          altitudeDataIntervalUs = cmpTimeUs now (previousAltitudeDataTimeUs (sensorStatics s));
          s1 = set_sensor (\<lambda>x. x\<lparr>altitudeDataIntervalSeconds := real_of_int altitudeDataIntervalUs * 0.000001,
                                  currentAltitudeCm := getAltitude inp,
                                  healthy := gpsIsHealthy inp\<rparr>)
                 (s\<lparr>sensorStatics := (sensorStatics s)\<lparr>previousAltitudeDataTimeUs := now\<rparr>\<rparr>);
          s2 = (if phaseOf s1 = RESCUE_LANDING then
                  set_sensor (\<lambda>x. x\<lparr>accMagnitude :=
                    sqrt ((accADC_Z inp - real_of_int (acc_1G inp)) * (accADC_Z inp - real_of_int (acc_1G inp))
                          + accADC_X inp * accADC_X inp + accADC_Y inp * accADC_Y inp)
                    * acc_1G_rec inp\<rparr>) s1
                else s1);
          e = real_of_int (attitude_yaw inp - GPS_directionToHome inp) * 0.1;
          e = (if e \<le> - 180 then e + 360 else if e > 180 then e - 360 else e);
          s3 = set_sensor (\<lambda>x. x\<lparr>directionToHome := GPS_directionToHome inp,
                                  errorAngle := e, absErrorAngle := \<bar>e\<bar>\<rparr>) s2
      in if \<not> newGPSData s3 then s3
         else
           let d = real_of_int (GPS_distanceToHomeCm inp);
               gdt = getGpsDataIntervalSeconds inp
           in set_sensor (\<lambda>x. x\<lparr>distanceToHomeCm := d,
                                distanceToHomeM := d / 100,
                                groundSpeedCmS := gpsSol_groundSpeed inp,
                                gpsDataIntervalSeconds := gdt,
                                velocityToHomeCmS := (prevDistanceToHomeCm (sensorStatics s3) - d) / gdt\<rparr>)
                (s3\<lparr>sensorStatics := (sensorStatics s3)\<lparr>prevDistanceToHomeCm := d\<rparr>\<rparr>))"

text \<open>
  \<^verbatim>\<open>checkGPSRescueIsAvailable\<close> (lines 717 to 757): the result and the
  function's static variables.
\<close>

definition checkGPSRescueIsAvailable ::
  "config \<Rightarrow> tick_inputs \<Rightarrow> available_statics \<Rightarrow> bool \<times> available_statics" where
  "checkGPSRescueIsAvailable cfg inp a =
     (let now = micros_available inp
      in if \<not> gpsIsHealthy inp \<or> \<not> STATE_GPS_FIX_HOME inp then (False, a)
         else if cmpTimeUs now (previousTimeUs_available a) < 1000000
         then (\<not> (noGPSfix a \<or> lowsats a), a)
         else
           let n = int8_t (constrain
                     (secondsLowSats_available a
                        + (if gpsSol_numSat inp < GPS_MIN_SAT_COUNT cfg then 1 else - 1)) 0 2)
           in (STATE_GPS_FIX inp \<and> n \<noteq> 2,
               \<lparr>previousTimeUs_available = now, secondsLowSats_available = n,
                lowsats = (n = 2), noGPSfix = (\<not> STATE_GPS_FIX inp)\<rparr>))"

text \<open>\<^verbatim>\<open>disarmOnImpact\<close> (lines 759 to 766).\<close>

definition disarmOnImpact :: "module_state \<Rightarrow> module_state" where
  "disarmOnImpact s =
     (if accMagnitude (sensorOf s) > disarmThreshold (intentOf s) then
        rescueStop (add_calls [setArmingDisabled_ARM_SWITCH, disarm DISARM_REASON_GPS_RESCUE] s)
      else s)"

text \<open>\<^verbatim>\<open>descend\<close> (lines 768 to 795).\<close>

definition descend :: "config \<Rightarrow> module_state \<Rightarrow> module_state" where
  "descend cfg s =
     (let c = gpsRescueConfig cfg;
          s1 = (if newGPSData s then
                  let distanceToLandingAreaM =
                        distanceToHomeM (sensorOf s) - targetLandingAltitudeCm (intentOf s) / 200;
                      prox = constrainf (distanceToLandingAreaM / descentDistanceM (intentOf s)) 0 1
                  in set_intent (\<lambda>i. i\<lparr>proximityToLandingArea := prox,
                                        velocityPidCutoffModifier := 2.5 - prox,
                                        targetVelocityCmS := real_of_int (cfg_rescueGroundspeed c) * prox,
                                        rollAngleLimitDeg := real_of_int (cfg_maxRescueAngle c) * prox\<rparr>) s
                else s);
          step = - 1 * altitudeDataIntervalSeconds (sensorOf s1) * real_of_int (cfg_descendRate c);
          descentAttenuator = returnAltitudeCm (intentOf s1) / 2000;
          step = (if descentAttenuator < 1 then step * descentAttenuator else step);
          modifier = constrainf (targetAltitudeCm (intentOf s1) / 5000) 0 1
      in set_intent (\<lambda>i. i\<lparr>altitudeStep := step,
                            descentRateModifier := modifier,
                            targetAltitudeCm := targetAltitudeCm i + step * (1 + 2 * modifier)\<rparr>) s1)"

text \<open>
  \<^verbatim>\<open>gpsRescueUpdate\<close> (lines 797 to 977). \<open>gpsRescueUpdate_switch\<close> is its
  \<^verbatim>\<open>switch (rescueState.phase)\<close> statement (lines 816 to 967).
\<close>

definition gpsRescueUpdate_switch :: "config \<Rightarrow> tick_inputs \<Rightarrow> module_state \<Rightarrow> module_state" where
  "gpsRescueUpdate_switch cfg inp s =
     (let c = gpsRescueConfig cfg;
          dt = gpsRescueTaskIntervalSeconds (sensorOf s)
      in case phaseOf s of
        RESCUE_IDLE \<Rightarrow> setReturnAltitude cfg inp s
      | RESCUE_INITIALIZE \<Rightarrow>
          (let s1 = set_intent (\<lambda>i. i\<lparr>targetLandingAltitudeCm :=
                                    100 * real_of_int (cfg_targetLandingAltitudeM c)\<rparr>) s
           in if \<not> STATE_GPS_FIX_HOME inp then set_failure RESCUE_NO_HOME_POINT s1
              else if distanceToHomeM (sensorOf s1) < real_of_int (cfg_minRescueDth c) then
                (if distanceToHomeM (sensorOf s1) < 5
                    \<and> currentAltitudeCm (sensorOf s1) < targetLandingAltitudeCm (intentOf s1)
                 then set_phase RESCUE_ABORT s1
                 else
                   let step = - altitudeDataIntervalSeconds (sensorOf s1) * real_of_int (cfg_descendRate c)
                   in set_phase RESCUE_LANDING
                        (set_intent (\<lambda>i. i\<lparr>altitudeStep := step,
                                             targetVelocityCmS := 0,
                                             pitchAngleLimitDeg := 0,
                                             rollAngleLimitDeg := 0,
                                             proximityToLandingArea := 0,
                                             targetAltitudeCm := currentAltitudeCm (sensorOf s1) + step\<rparr>) s1))
              else
                set_intent (\<lambda>i. i\<lparr>secondsFailing := 0,
                                    yawAttenuator := 0,
                                    targetVelocityCmS := velocityToHomeCmS (sensorOf s1),
                                    pitchAngleLimitDeg := 0,
                                    rollAngleLimitDeg := 0,
                                    altitudeStep := 0,
                                    descentRateModifier := 0,
                                    velocityPidCutoffModifier := 1,
                                    proximityToLandingArea := 0,
                                    velocityItermRelax := 0\<rparr>)
                  ((set_phase RESCUE_ATTAIN_ALT s1)
                     \<lparr>initialAltitudeLow :=
                        (currentAltitudeCm (sensorOf s1) < returnAltitudeCm (intentOf s1))\<rparr>))
      | RESCUE_ATTAIN_ALT \<Rightarrow>
          (let step = (if initialAltitudeLow s then real_of_int (cfg_ascendRate c)
                       else - 1 * real_of_int (cfg_descendRate c)) * dt;
               currentAltitudeLow = (currentAltitudeCm (sensorOf s) < returnAltitudeCm (intentOf s));
               s1 = (if initialAltitudeLow s = currentAltitudeLow then
                       set_intent (\<lambda>i. i\<lparr>altitudeStep := step,
                                           targetAltitudeCm := targetAltitudeCm i + step\<rparr>) s
                     else
                       set_phase RESCUE_ROTATE
                         (set_intent (\<lambda>i. i\<lparr>targetAltitudeCm := returnAltitudeCm i,
                                              altitudeStep := 0\<rparr>) s))
           in set_intent (\<lambda>i. i\<lparr>targetVelocityCmS := velocityToHomeCmS (sensorOf s1)\<rparr>) s1)
      | RESCUE_ROTATE \<Rightarrow>
          (let s1 = (if yawAttenuator (intentOf s) < 1
                     then set_intent (\<lambda>i. i\<lparr>yawAttenuator := yawAttenuator i + dt\<rparr>) s else s);
               s2 = (if absErrorAngle (sensorOf s1) < 30 then
                       set_intent (\<lambda>i. i\<lparr>pitchAngleLimitDeg := real_of_int (cfg_maxRescueAngle c),
                                           secondsFailing := 0,
                                           proximityToLandingArea := 1\<rparr>)
                         (set_phase RESCUE_FLY_HOME s1)
                     else s1)
           in set_intent (\<lambda>i. i\<lparr>targetVelocityCmS := velocityToHomeCmS (sensorOf s2)\<rparr>)
                (s2\<lparr>initialVelocityLow :=
                      (velocityToHomeCmS (sensorOf s2) < real_of_int (cfg_rescueGroundspeed c))\<rparr>))
      | RESCUE_FLY_HOME \<Rightarrow>
          (let s1 = (if yawAttenuator (intentOf s) < 1
                     then set_intent (\<lambda>i. i\<lparr>yawAttenuator := yawAttenuator i + dt\<rparr>) s else s);
               targetVelocityError = real_of_int (cfg_rescueGroundspeed c) - targetVelocityCmS (intentOf s1);
               velocityTargetStep = dt * targetVelocityError;
               targetVelocityIsLow = (targetVelocityCmS (intentOf s1) < real_of_int (cfg_rescueGroundspeed c));
               s2 = (if initialVelocityLow s1 = targetVelocityIsLow
                     then set_intent (\<lambda>i. i\<lparr>targetVelocityCmS := targetVelocityCmS i + velocityTargetStep\<rparr>) s1
                     else s1);
               relax = velocityItermRelax (intentOf s2) + 0.5 * dt * (1 - velocityItermRelax (intentOf s2));
               s3 = set_intent (\<lambda>i. i\<lparr>velocityItermRelax := relax,
                                       velocityPidCutoffModifier := 2 - relax,
                                       rollAngleLimitDeg := 0.5 * relax * real_of_int (cfg_maxRescueAngle c)\<rparr>) s2
           in if newGPSData s3 \<and> distanceToHomeM (sensorOf s3) \<le> descentDistanceM (intentOf s3)
              then set_intent (\<lambda>i. i\<lparr>secondsFailing := 0\<rparr>) (set_phase RESCUE_DESCENT s3)
              else s3)
      | RESCUE_DESCENT \<Rightarrow>
          descend cfg
            (if currentAltitudeCm (sensorOf s) < targetLandingAltitudeCm (intentOf s)
             then set_intent (\<lambda>i. i\<lparr>secondsFailing := 0\<rparr>) (set_phase RESCUE_LANDING s)
             else s)
      | RESCUE_LANDING \<Rightarrow> disarmOnImpact (descend cfg s)
      | RESCUE_COMPLETE \<Rightarrow> rescueStop s
      | RESCUE_ABORT \<Rightarrow>
          rescueStop
            (set_intent (\<lambda>i. i\<lparr>secondsFailing := 0\<rparr>)
              (add_calls [setArmingDisabled_ARM_SWITCH, disarm DISARM_REASON_FAILSAFE] s))
      | RESCUE_DO_NOTHING \<Rightarrow> disarmOnImpact s)"

text \<open>Lines 800 to 806: leaving and entering the rescue.\<close>

definition gpsRescueUpdate_start :: "config \<Rightarrow> tick_inputs \<Rightarrow> module_state \<Rightarrow> module_state" where
  "gpsRescueUpdate_start cfg inp s =
     (if \<not> FLIGHT_MODE_GPS_RESCUE inp then rescueStop s
      else if phaseOf s = RESCUE_IDLE then
        performSanityChecks cfg inp (micros_start inp)
          (rescueAttainPosition cfg inp (rescueStart s))
      else s)"

text \<open>The state in which the \<^verbatim>\<open>switch\<close> runs: lines 800 to 814.\<close>

definition gpsRescueUpdate_sensed :: "config \<Rightarrow> tick_inputs \<Rightarrow> module_state \<Rightarrow> module_state" where
  "gpsRescueUpdate_sensed cfg inp s =
     (let s1 = sensorUpdate inp (gpsRescueUpdate_start cfg inp s);
          (avail, a) = checkGPSRescueIsAvailable cfg inp (availableStatics s1)
      in s1\<lparr>availableStatics := a, rescueState := (rescueState s1)\<lparr>isAvailable := avail\<rparr>\<rparr>)"

definition gpsRescueUpdate :: "config \<Rightarrow> tick_inputs \<Rightarrow> module_state \<Rightarrow> module_state" where
  "gpsRescueUpdate cfg inp s =
     (let s1 = gpsRescueUpdate_switch cfg inp (gpsRescueUpdate_sensed cfg inp s);
          s2 = performSanityChecks cfg inp (micros_sanity inp) s1;
          s3 = rescueAttainPosition cfg inp s2
      in s3\<lparr>newGPSData := False\<rparr>)"

section \<open>Runs, and the states and inputs of the examples\<close>

definition config0 :: config where
  "config0 = \<lparr>
     gpsRescueConfig = \<lparr>cfg_throttleP = 15, cfg_throttleI = 15, cfg_throttleD = 20,
       cfg_throttleHover = 1275, cfg_throttleMin = 1100, cfg_throttleMax = 1700,
       cfg_yawP = 20, cfg_rollMix = 150, cfg_velP = 8, cfg_velI = 40, cfg_velD = 12,
       cfg_pitchCutoffHz = 75, cfg_initialAltitudeM = 30, cfg_rescueAltitudeBufferM = 10,
       cfg_altitudeMode = GPS_RESCUE_ALT_MODE_FIXED, cfg_sanityChecks = RESCUE_SANITY_FS_ONLY,
       cfg_allowArmingWithoutFix = False, cfg_useMag = True, cfg_minRescueDth = 20,
       cfg_targetLandingAltitudeM = 1, cfg_descentDistanceM = 20, cfg_descendRate = 150,
       cfg_ascendRate = 750, cfg_rescueGroundspeed = 750, cfg_maxRescueAngle = 45,
       cfg_disarmThreshold = 20\<rparr>,
     altitude_d_lpf = 100, gps_set_home_point_once = False, yaw_control_reversed = False,
     TASK_INTERVAL = 5368709 / 536870912, GPS_MIN_SAT_COUNT = 8, USE_MAG = True\<rparr>"

definition inputs0 :: tick_inputs where
  "inputs0 = \<lparr>FLIGHT_MODE_GPS_RESCUE = False, ARMING_FLAG_ARMED = True, STATE_GPS_FIX = True,
     STATE_GPS_FIX_HOME = True, sensors_SENSOR_MAG = False, rxIsReceivingSignal = True,
     crashRecoveryModeActive = False, gpsIsHealthy = True, rcCommand_THROTTLE = 1500,
     getCosTiltAngle = 1, getAltitude = 0, attitude_yaw = 0, accADC_X = 0, accADC_Y = 0,
     accADC_Z = 2048, acc_1G = 2048, acc_1G_rec = 1 / 2048, gpsSol_numSat = 12,
     gpsSol_groundSpeed = 0, GPS_directionToHome = 0, GPS_distanceToHomeCm = 0,
     getGpsDataIntervalSeconds = 0.1, micros_start = 0, micros_sensor = 0,
     micros_available = 0, micros_sanity = 0\<rparr>"

definition idleState :: module_state where
  "idleState = gpsRescueInit config0 zeroState"

definition at_time :: "int \<Rightarrow> tick_inputs \<Rightarrow> tick_inputs" where
  "at_time t inp = inp\<lparr>micros_start := t, micros_sensor := t, micros_available := t, micros_sanity := t\<rparr>"

definition tickIdle :: tick_inputs where
  "tickIdle = inputs0\<lparr>getAltitude := 3000, GPS_distanceToHomeCm := 2500\<rparr>"

definition tickRescue :: tick_inputs where
  "tickRescue = tickIdle\<lparr>FLIGHT_MODE_GPS_RESCUE := True\<rparr>"

definition tickCrash :: tick_inputs where
  "tickCrash = tickRescue\<lparr>crashRecoveryModeActive := True, gpsIsHealthy := False\<rparr>"

definition crashTrace :: module_state where
  "crashTrace =
     gpsRescueUpdate config0 (at_time 20000 tickCrash)
       (gpsRescueUpdate config0 (at_time 10000 tickRescue)
         (gpsRescueNewGpsData
           (gpsRescueUpdate config0 (at_time 0 tickIdle) (gpsRescueNewGpsData idleState))))"


text \<open>States of a rescue under way, for the examples.\<close>

definition flyingHome :: module_state where
  "flyingHome =
     set_intent (\<lambda>i. i\<lparr>targetVelocityCmS := 1000, secondsFailing := 14, yawAttenuator := 1,
                          pitchAngleLimitDeg := 45, proximityToLandingArea := 1,
                          returnAltitudeCm := 3000, targetAltitudeCm := 3000,
                          descentDistanceM := 20\<rparr>)
       (set_sensor (\<lambda>x. x\<lparr>distanceToHomeCm := 9900, distanceToHomeM := 99, healthy := True,
                            currentAltitudeCm := 3000\<rparr>)
         (set_sanity (\<lambda>x. x\<lparr>previousDistanceToHomeCm := 10000\<rparr>)
           (set_phase RESCUE_FLY_HOME idleState)))"

definition gpsLostFlyingHome :: module_state where
  "gpsLostFlyingHome = set_failure RESCUE_GPSLOST flyingHome"

definition stoppedAfterGpsLoss :: module_state where
  "stoppedAfterGpsLoss = rescueStop gpsLostFlyingHome"


text \<open>
  Runs of the task. Between two calls of \<^verbatim>\<open>gpsRescueUpdate\<close> the GPS driver
  may call \<^verbatim>\<open>gpsRescueNewGpsData\<close>: a tick is whether it did, and the inputs
  of the call.
\<close>

type_synonym tick = "bool \<times> tick_inputs"

definition step :: "config \<Rightarrow> tick \<Rightarrow> module_state \<Rightarrow> module_state" where
  "step cfg t s = gpsRescueUpdate cfg (snd t) (if fst t then gpsRescueNewGpsData s else s)"

fun run :: "config \<Rightarrow> module_state \<Rightarrow> tick list \<Rightarrow> module_state" where
  "run cfg s [] = s"
| "run cfg s (t # ts) = run cfg (step cfg t s) ts"

text \<open>
  The acceleration magnitude \<^verbatim>\<open>sensorUpdate\<close> computes, and the value a run
  holds: the one computed on the last tick whose sensor update found the
  phase at landing, or the value before the run.
\<close>

definition accMagnitudeReading :: "tick_inputs \<Rightarrow> real" where
  "accMagnitudeReading inp =
     sqrt ((accADC_Z inp - real_of_int (acc_1G inp)) * (accADC_Z inp - real_of_int (acc_1G inp))
           + accADC_X inp * accADC_X inp + accADC_Y inp * accADC_Y inp)
     * acc_1G_rec inp"

fun heldAccMagnitude :: "config \<Rightarrow> real \<Rightarrow> module_state \<Rightarrow> tick list \<Rightarrow> real" where
  "heldAccMagnitude cfg a s [] = a"
| "heldAccMagnitude cfg a s (t # ts) =
     heldAccMagnitude cfg
       (if phaseOf s = RESCUE_LANDING \<and> FLIGHT_MODE_GPS_RESCUE (snd t)
        then accMagnitudeReading (snd t) else a)
       (step cfg t s) ts"

definition airborneNearHome :: module_state where
  "airborneNearHome =
     set_phase RESCUE_INITIALIZE
       (set_sensor (\<lambda>x. x\<lparr>distanceToHomeCm := 1000, distanceToHomeM := 10,
                            currentAltitudeCm := 800, healthy := True\<rparr>) idleState)"

definition landing :: module_state where
  "landing =
     set_intent (\<lambda>i. i\<lparr>disarmThreshold := 2, returnAltitudeCm := 3000, targetAltitudeCm := 90,
                          targetLandingAltitudeCm := 100, descentDistanceM := 20\<rparr>)
       (set_sensor (\<lambda>x. x\<lparr>distanceToHomeCm := 100, distanceToHomeM := 1, healthy := True,
                            currentAltitudeCm := 95\<rparr>)
         (set_phase RESCUE_LANDING idleState))"

definition doingNothing :: module_state where
  "doingNothing =
     set_failure RESCUE_GPSLOST
       (set_sensor (\<lambda>x. x\<lparr>accMagnitude := 5 / 2\<rparr>) (set_phase RESCUE_DO_NOTHING landing))"

definition tickImpact :: tick_inputs where
  "tickImpact = tickRescue\<lparr>accADC_X := 0, accADC_Y := 0, accADC_Z := 8192, getAltitude := 95,
     GPS_distanceToHomeCm := 100\<rparr>"


text \<open>
  A rescue started on the ground, three metres from home: one idle call that
  receives a GPS packet, the call that finds the rescue mode on, and the call
  after it.
\<close>

definition tickGround :: tick_inputs where
  "tickGround = inputs0\<lparr>getAltitude := 50, GPS_distanceToHomeCm := 300\<rparr>"

definition tickGroundRescue :: tick_inputs where
  "tickGroundRescue = tickGround\<lparr>FLIGHT_MODE_GPS_RESCUE := True\<rparr>"

definition groundReady :: module_state where
  "groundReady = step config0 (True, at_time 0 tickGround) idleState"

definition groundActivated :: module_state where
  "groundActivated = gpsRescueUpdate config0 (at_time 10000 tickGroundRescue) groundReady"

definition groundAborted :: module_state where
  "groundAborted = step config0 (False, at_time 20000 tickGroundRescue) groundActivated"
























section \<open>Lemmas about the functions\<close>

lemmas access_defs = phaseOf_def failureOf_def sensorOf_def intentOf_def set_phase_def
  set_failure_def set_sensor_def set_intent_def set_sanity_def set_attain_def add_calls_def

lemmas init_defs = gpsRescueInit_def zeroState_def zeroSensor_def zeroIntent_def
  pt1FilterInit_def pt2FilterInit_def pt3FilterInit_def

lemmas model_defs =
  gpsRescueUpdate_def gpsRescueUpdate_sensed_def gpsRescueUpdate_start_def gpsRescueUpdate_switch_def
  descend_def disarmOnImpact_def checkGPSRescueIsAvailable_def sensorUpdate_def
  performSanityChecks_def sanityEveryCall_def sanityFailureResponse_def flyawayCheck_def
  lowSatsCheck_def stuckAltitudeCheck_def stuckAltitudeRatio_def
  rescueAttainPosition_def rescueAttainPosition_velocity_def rescueAttainPosition_heading_def
  rescueAttainPosition_altitude_def setReturnAltitude_def rescueStart_def rescueStop_def
  gpsRescueNewGpsData_def gpsRescueInit_def zeroState_def zeroSensor_def zeroIntent_def
  pt1FilterApply_def pt2FilterApply_def pt3FilterApply_def pt1FilterInit_def pt2FilterInit_def
  pt3FilterInit_def pt1FilterUpdateCutoff_def constrainf_def constrain_def int8_t_def int16_t_def
  truncf_def cmpTimeUs_def divf_def fquot_gt_def GET_DIRECTION_def

lemma altitude_rescueState [simp]:
  "rescueState (rescueAttainPosition_altitude cfg inp s) = rescueState s"
  by (simp add: rescueAttainPosition_altitude_def Let_def split_def)

lemma heading_rescueState [simp]:
  "rescueState (rescueAttainPosition_heading cfg s) = rescueState s"
  by (simp add: rescueAttainPosition_heading_def Let_def)

lemma velocity_rescueState [simp]:
  "rescueState (rescueAttainPosition_velocity cfg s) = rescueState s"
  by (simp add: rescueAttainPosition_velocity_def Let_def split_def)

lemma attain_rescueState:
  "rescueState (rescueAttainPosition cfg inp s) =
     (if phaseOf s = RESCUE_INITIALIZE
      then (rescueState s)\<lparr>intent := (intent (rescueState s))\<lparr>disarmThreshold :=
              real_of_int (cfg_disarmThreshold (gpsRescueConfig cfg)) / 10\<rparr>\<rparr>
      else rescueState s)"
  by (cases "phaseOf s") (simp_all add: rescueAttainPosition_def set_intent_def)

lemma attain_phaseOf [simp]: "phaseOf (rescueAttainPosition cfg inp s) = phaseOf s"
  by (simp add: phaseOf_def attain_rescueState)

lemma attain_failureOf [simp]: "failureOf (rescueAttainPosition cfg inp s) = failureOf s"
  by (simp add: failureOf_def attain_rescueState)

lemma attain_sensorOf [simp]: "sensorOf (rescueAttainPosition cfg inp s) = sensorOf s"
  by (simp add: sensorOf_def attain_rescueState)

lemma attain_intentOf:
  "intentOf (rescueAttainPosition cfg inp s) =
     (if phaseOf s = RESCUE_INITIALIZE
      then (intentOf s)\<lparr>disarmThreshold :=
              real_of_int (cfg_disarmThreshold (gpsRescueConfig cfg)) / 10\<rparr>
      else intentOf s)"
  by (simp add: intentOf_def attain_rescueState)

lemma attain_idle:
  "phaseOf s = RESCUE_IDLE \<Longrightarrow>
     rescueAttainPosition cfg inp s =
       s\<lparr>gpsRescueAngle := (gpsRescueAngle s)(AI_PITCH := 0, AI_ROLL := 0),
         rescueThrottle := rcCommand_THROTTLE inp\<rparr>"
  by (simp add: rescueAttainPosition_def)

text \<open>What the controllers leave alone.\<close>

lemma altitude_frame [simp]:
  "sanity (rescueAttainPosition_altitude cfg inp s) = sanity s"
  "calls (rescueAttainPosition_altitude cfg inp s) = calls s"
  "magForceDisable (rescueAttainPosition_altitude cfg inp s) = magForceDisable s"
  "newGPSData (rescueAttainPosition_altitude cfg inp s) = newGPSData s"
  "velocityDLpf (rescueAttainPosition_altitude cfg inp s) = velocityDLpf s"
  "velocityUpsampleLpf (rescueAttainPosition_altitude cfg inp s) = velocityUpsampleLpf s"
  "pitchAdjustment (attain (rescueAttainPosition_altitude cfg inp s)) = pitchAdjustment (attain s)"
  "velocityI (attain (rescueAttainPosition_altitude cfg inp s)) = velocityI (attain s)"
  "previousVelocityError (attain (rescueAttainPosition_altitude cfg inp s)) = previousVelocityError (attain s)"
  "initialAltitudeLow (rescueAttainPosition_altitude cfg inp s) = initialAltitudeLow s"
  "initialVelocityLow (rescueAttainPosition_altitude cfg inp s) = initialVelocityLow s"
  "sensorStatics (rescueAttainPosition_altitude cfg inp s) = sensorStatics s"
  "availableStatics (rescueAttainPosition_altitude cfg inp s) = availableStatics s"
  by (simp_all add: rescueAttainPosition_altitude_def Let_def split_def)

lemma heading_frame [simp]:
  "sanity (rescueAttainPosition_heading cfg s) = sanity s"
  "calls (rescueAttainPosition_heading cfg s) = calls s"
  "magForceDisable (rescueAttainPosition_heading cfg s) = magForceDisable s"
  "newGPSData (rescueAttainPosition_heading cfg s) = newGPSData s"
  "velocityDLpf (rescueAttainPosition_heading cfg s) = velocityDLpf s"
  "velocityUpsampleLpf (rescueAttainPosition_heading cfg s) = velocityUpsampleLpf s"
  "attain (rescueAttainPosition_heading cfg s) = attain s"
  "initialAltitudeLow (rescueAttainPosition_heading cfg s) = initialAltitudeLow s"
  "initialVelocityLow (rescueAttainPosition_heading cfg s) = initialVelocityLow s"
  "sensorStatics (rescueAttainPosition_heading cfg s) = sensorStatics s"
  "availableStatics (rescueAttainPosition_heading cfg s) = availableStatics s"
  by (simp_all add: rescueAttainPosition_heading_def Let_def)

lemma velocity_frame [simp]:
  "sanity (rescueAttainPosition_velocity cfg s) = sanity s"
  "calls (rescueAttainPosition_velocity cfg s) = calls s"
  "magForceDisable (rescueAttainPosition_velocity cfg s) = magForceDisable s"
  "newGPSData (rescueAttainPosition_velocity cfg s) = newGPSData s"
  "initialAltitudeLow (rescueAttainPosition_velocity cfg s) = initialAltitudeLow s"
  "initialVelocityLow (rescueAttainPosition_velocity cfg s) = initialVelocityLow s"
  "sensorStatics (rescueAttainPosition_velocity cfg s) = sensorStatics s"
  "availableStatics (rescueAttainPosition_velocity cfg s) = availableStatics s"
  by (simp_all add: rescueAttainPosition_velocity_def Let_def split_def)

lemma attain_frame [simp]:
  "sanity (rescueAttainPosition cfg inp s) = sanity s"
  "calls (rescueAttainPosition cfg inp s) = calls s"
  "magForceDisable (rescueAttainPosition cfg inp s) = magForceDisable s"
  "newGPSData (rescueAttainPosition cfg inp s) = newGPSData s"
  "initialAltitudeLow (rescueAttainPosition cfg inp s) = initialAltitudeLow s"
  "initialVelocityLow (rescueAttainPosition cfg inp s) = initialVelocityLow s"
  "sensorStatics (rescueAttainPosition cfg inp s) = sensorStatics s"
  "availableStatics (rescueAttainPosition cfg inp s) = availableStatics s"
  by (cases "phaseOf s"; simp add: rescueAttainPosition_def set_intent_def)+

lemma int8_t_id: "- 128 \<le> x \<Longrightarrow> x \<le> 127 \<Longrightarrow> int8_t x = x"
  by (simp add: int8_t_def)

lemma constrain_bounds: "lo \<le> hi \<Longrightarrow> lo \<le> constrain x lo hi \<and> constrain x lo hi \<le> hi"
  by (simp add: constrain_def)


lemma int8_constrain:
  assumes "0 \<le> hi" and "hi \<le> 127"
  shows "int8_t (constrain x 0 hi) = constrain x 0 hi"
    and "0 \<le> int8_t (constrain x 0 hi)" and "int8_t (constrain x 0 hi) \<le> hi"
proof -
  from constrain_bounds [of 0 hi x] assms
  have b: "0 \<le> constrain x 0 hi" "constrain x 0 hi \<le> hi" by simp_all
  then show "int8_t (constrain x 0 hi) = constrain x 0 hi"
    using assms by (intro int8_t_id) linarith+
  then show "0 \<le> int8_t (constrain x 0 hi)" and "int8_t (constrain x 0 hi) \<le> hi"
    using b by simp_all
qed

text \<open>The failure response changes the phase only.\<close>

lemma failureResponse_phaseOf:
  "phaseOf (sanityFailureResponse cfg inp s) =
     (if failureOf s = RESCUE_HEALTHY then phaseOf s
      else if cfg_sanityChecks (gpsRescueConfig cfg) = RESCUE_SANITY_ON
              \<or> cfg_sanityChecks (gpsRescueConfig cfg) = RESCUE_SANITY_FS_ONLY \<and> \<not> rxIsReceivingSignal inp
              \<or> cfg_sanityChecks (gpsRescueConfig cfg) = RESCUE_SANITY_OFF
                  \<and> cfg_allowArmingWithoutFix (gpsRescueConfig cfg) \<and> \<not> STATE_GPS_FIX_HOME inp
                  \<and> \<not> rxIsReceivingSignal inp
           then RESCUE_ABORT else RESCUE_DO_NOTHING)"
  by (cases "cfg_sanityChecks (gpsRescueConfig cfg)")
     (simp_all add: sanityFailureResponse_def access_defs Let_def)

lemma failureResponse_frame [simp]:
  "failureOf (sanityFailureResponse cfg inp s) = failureOf s"
  "sensorOf (sanityFailureResponse cfg inp s) = sensorOf s"
  "intentOf (sanityFailureResponse cfg inp s) = intentOf s"
  "sanity (sanityFailureResponse cfg inp s) = sanity s"
  "calls (sanityFailureResponse cfg inp s) = calls s"
  "magForceDisable (sanityFailureResponse cfg inp s) = magForceDisable s"
  by (cases "cfg_sanityChecks (gpsRescueConfig cfg)";
      simp add: sanityFailureResponse_def access_defs Let_def)+

lemma everyCall_phaseOf:
  "phaseOf (sanityEveryCall cfg inp now s) =
     (if crashRecoveryModeActive inp then RESCUE_IDLE
      else phaseOf (sanityFailureResponse cfg inp s))"
proof -
  have "phaseOf (sanityFailureResponse cfg inp (s\<lparr>sanity := x\<rparr>)) = phaseOf (sanityFailureResponse cfg inp s)" for x
    by (simp add: failureResponse_phaseOf) (simp add: access_defs)
  then show ?thesis
    by (simp add: sanityEveryCall_def Let_def rescueStop_def)
       (simp add: access_defs)
qed

lemma everyCall_failureOf:
  "failureOf (sanityEveryCall cfg inp now s) =
     (if healthy (sensorOf s) then failureOf s else RESCUE_GPSLOST)"
proof -
  have a: "sensorOf (rescueStop (add_calls cs x)) = sensorOf x" for cs x
    by (simp add: rescueStop_def access_defs)
  have b: "failureOf (rescueStop (add_calls cs x)) = failureOf x" for cs x
    by (simp add: rescueStop_def access_defs)
  have c: "sensorOf (s\<lparr>sanity := y\<rparr>) = sensorOf s" "failureOf (s\<lparr>sanity := y\<rparr>) = failureOf s" for y
    by (simp_all add: access_defs)
  have d: "failureOf (set_failure f x) = f" for f x by (simp add: access_defs)
  show ?thesis
    by (simp add: sanityEveryCall_def Let_def a b c d)
qed

lemma everyCall_frame [simp]:
  "sensorOf (sanityEveryCall cfg inp now s) = sensorOf s"
  "intentOf (sanityEveryCall cfg inp now s) = intentOf s"
  "magForceDisable (sanityEveryCall cfg inp now s) = magForceDisable s"
proof -
  have a: "sensorOf (rescueStop (add_calls cs x)) = sensorOf x"
          "intentOf (rescueStop (add_calls cs x)) = intentOf x"
          "magForceDisable (rescueStop (add_calls cs x)) = magForceDisable x" for cs x
    by (simp_all add: rescueStop_def access_defs)
  have c: "sensorOf (s\<lparr>sanity := y\<rparr>) = sensorOf s" "intentOf (s\<lparr>sanity := y\<rparr>) = intentOf s" for y
    by (simp_all add: access_defs)
  have d: "sensorOf (set_failure f x) = sensorOf x" "intentOf (set_failure f x) = intentOf x"
          "magForceDisable (set_failure f x) = magForceDisable x" for f x
    by (simp_all add: access_defs)
  show "sensorOf (sanityEveryCall cfg inp now s) = sensorOf s"
    "intentOf (sanityEveryCall cfg inp now s) = intentOf s"
    "magForceDisable (sanityEveryCall cfg inp now s) = magForceDisable s"
    by (simp_all add: sanityEveryCall_def Let_def a c d)
qed

lemma everyCall_sanity:
  "sanity (sanityEveryCall cfg inp now s) =
     (if phaseOf s = RESCUE_INITIALIZE then
        \<lparr>previousTimeUs = now, prevAltitudeCm = currentAltitudeCm (sensorOf s),
         prevTargetAltitudeCm = targetAltitudeCm (intentOf s),
         previousDistanceToHomeCm = distanceToHomeCm (sensorOf s),
         secondsLowSats = 0, secondsDoingNothing = 0\<rparr>
      else sanity s)"
proof -
  have a: "sanity (rescueStop (add_calls cs x)) = sanity x" for cs x
    by (simp add: rescueStop_def access_defs)
  have d: "sanity (set_failure f x) = sanity x" for f x
    by (simp add: access_defs)
  show ?thesis
    by (simp add: sanityEveryCall_def Let_def a d)
qed

text \<open>Reading a field after writing another one.\<close>

lemma update_frame [simp]:
  "phaseOf (rescueThrottle_update g_rescueThrottle s) = phaseOf s"
  "failureOf (rescueThrottle_update g_rescueThrottle s) = failureOf s"
  "sensorOf (rescueThrottle_update g_rescueThrottle s) = sensorOf s"
  "intentOf (rescueThrottle_update g_rescueThrottle s) = intentOf s"
  "phaseOf (rescueYaw_update g_rescueYaw s) = phaseOf s"
  "failureOf (rescueYaw_update g_rescueYaw s) = failureOf s"
  "sensorOf (rescueYaw_update g_rescueYaw s) = sensorOf s"
  "intentOf (rescueYaw_update g_rescueYaw s) = intentOf s"
  "phaseOf (gpsRescueAngle_update g_gpsRescueAngle s) = phaseOf s"
  "failureOf (gpsRescueAngle_update g_gpsRescueAngle s) = failureOf s"
  "sensorOf (gpsRescueAngle_update g_gpsRescueAngle s) = sensorOf s"
  "intentOf (gpsRescueAngle_update g_gpsRescueAngle s) = intentOf s"
  "phaseOf (magForceDisable_update g_magForceDisable s) = phaseOf s"
  "failureOf (magForceDisable_update g_magForceDisable s) = failureOf s"
  "sensorOf (magForceDisable_update g_magForceDisable s) = sensorOf s"
  "intentOf (magForceDisable_update g_magForceDisable s) = intentOf s"
  "phaseOf (newGPSData_update g_newGPSData s) = phaseOf s"
  "failureOf (newGPSData_update g_newGPSData s) = failureOf s"
  "sensorOf (newGPSData_update g_newGPSData s) = sensorOf s"
  "intentOf (newGPSData_update g_newGPSData s) = intentOf s"
  "phaseOf (throttleDLpf_update g_throttleDLpf s) = phaseOf s"
  "failureOf (throttleDLpf_update g_throttleDLpf s) = failureOf s"
  "sensorOf (throttleDLpf_update g_throttleDLpf s) = sensorOf s"
  "intentOf (throttleDLpf_update g_throttleDLpf s) = intentOf s"
  "phaseOf (velocityDLpf_update g_velocityDLpf s) = phaseOf s"
  "failureOf (velocityDLpf_update g_velocityDLpf s) = failureOf s"
  "sensorOf (velocityDLpf_update g_velocityDLpf s) = sensorOf s"
  "intentOf (velocityDLpf_update g_velocityDLpf s) = intentOf s"
  "phaseOf (velocityUpsampleLpf_update g_velocityUpsampleLpf s) = phaseOf s"
  "failureOf (velocityUpsampleLpf_update g_velocityUpsampleLpf s) = failureOf s"
  "sensorOf (velocityUpsampleLpf_update g_velocityUpsampleLpf s) = sensorOf s"
  "intentOf (velocityUpsampleLpf_update g_velocityUpsampleLpf s) = intentOf s"
  "phaseOf (attain_update g_attain s) = phaseOf s"
  "failureOf (attain_update g_attain s) = failureOf s"
  "sensorOf (attain_update g_attain s) = sensorOf s"
  "intentOf (attain_update g_attain s) = intentOf s"
  "phaseOf (sanity_update g_sanity s) = phaseOf s"
  "failureOf (sanity_update g_sanity s) = failureOf s"
  "sensorOf (sanity_update g_sanity s) = sensorOf s"
  "intentOf (sanity_update g_sanity s) = intentOf s"
  "phaseOf (sensorStatics_update g_sensorStatics s) = phaseOf s"
  "failureOf (sensorStatics_update g_sensorStatics s) = failureOf s"
  "sensorOf (sensorStatics_update g_sensorStatics s) = sensorOf s"
  "intentOf (sensorStatics_update g_sensorStatics s) = intentOf s"
  "phaseOf (availableStatics_update g_availableStatics s) = phaseOf s"
  "failureOf (availableStatics_update g_availableStatics s) = failureOf s"
  "sensorOf (availableStatics_update g_availableStatics s) = sensorOf s"
  "intentOf (availableStatics_update g_availableStatics s) = intentOf s"
  "phaseOf (initialAltitudeLow_update g_initialAltitudeLow s) = phaseOf s"
  "failureOf (initialAltitudeLow_update g_initialAltitudeLow s) = failureOf s"
  "sensorOf (initialAltitudeLow_update g_initialAltitudeLow s) = sensorOf s"
  "intentOf (initialAltitudeLow_update g_initialAltitudeLow s) = intentOf s"
  "phaseOf (initialVelocityLow_update g_initialVelocityLow s) = phaseOf s"
  "failureOf (initialVelocityLow_update g_initialVelocityLow s) = failureOf s"
  "sensorOf (initialVelocityLow_update g_initialVelocityLow s) = sensorOf s"
  "intentOf (initialVelocityLow_update g_initialVelocityLow s) = intentOf s"
  "phaseOf (calls_update g_calls s) = phaseOf s"
  "failureOf (calls_update g_calls s) = failureOf s"
  "sensorOf (calls_update g_calls s) = sensorOf s"
  "intentOf (calls_update g_calls s) = intentOf s"
  by (simp_all add: access_defs)

lemma setter_frame [simp]:
  "phaseOf (set_phase p s) = p"
  "failureOf (set_phase p s) = failureOf s"
  "sensorOf (set_phase p s) = sensorOf s"
  "intentOf (set_phase p s) = intentOf s"
  "sanity (set_phase p s) = sanity s"
  "calls (set_phase p s) = calls s"
  "magForceDisable (set_phase p s) = magForceDisable s"
  "newGPSData (set_phase p s) = newGPSData s"
  "attain (set_phase p s) = attain s"
  "sensorStatics (set_phase p s) = sensorStatics s"
  "availableStatics (set_phase p s) = availableStatics s"
  "initialAltitudeLow (set_phase p s) = initialAltitudeLow s"
  "initialVelocityLow (set_phase p s) = initialVelocityLow s"
  "velocityDLpf (set_phase p s) = velocityDLpf s"
  "velocityUpsampleLpf (set_phase p s) = velocityUpsampleLpf s"
  "throttleDLpf (set_phase p s) = throttleDLpf s"
  "gpsRescueAngle (set_phase p s) = gpsRescueAngle s"
  "rescueThrottle (set_phase p s) = rescueThrottle s"
  "rescueYaw (set_phase p s) = rescueYaw s"
  "phaseOf (set_failure f s) = phaseOf s"
  "failureOf (set_failure f s) = f"
  "sensorOf (set_failure f s) = sensorOf s"
  "intentOf (set_failure f s) = intentOf s"
  "sanity (set_failure f s) = sanity s"
  "calls (set_failure f s) = calls s"
  "magForceDisable (set_failure f s) = magForceDisable s"
  "newGPSData (set_failure f s) = newGPSData s"
  "attain (set_failure f s) = attain s"
  "sensorStatics (set_failure f s) = sensorStatics s"
  "availableStatics (set_failure f s) = availableStatics s"
  "initialAltitudeLow (set_failure f s) = initialAltitudeLow s"
  "initialVelocityLow (set_failure f s) = initialVelocityLow s"
  "velocityDLpf (set_failure f s) = velocityDLpf s"
  "velocityUpsampleLpf (set_failure f s) = velocityUpsampleLpf s"
  "throttleDLpf (set_failure f s) = throttleDLpf s"
  "gpsRescueAngle (set_failure f s) = gpsRescueAngle s"
  "rescueThrottle (set_failure f s) = rescueThrottle s"
  "rescueYaw (set_failure f s) = rescueYaw s"
  "phaseOf (set_sensor gs s) = phaseOf s"
  "failureOf (set_sensor gs s) = failureOf s"
  "sensorOf (set_sensor gs s) = gs (sensorOf s)"
  "intentOf (set_sensor gs s) = intentOf s"
  "sanity (set_sensor gs s) = sanity s"
  "calls (set_sensor gs s) = calls s"
  "magForceDisable (set_sensor gs s) = magForceDisable s"
  "newGPSData (set_sensor gs s) = newGPSData s"
  "attain (set_sensor gs s) = attain s"
  "sensorStatics (set_sensor gs s) = sensorStatics s"
  "availableStatics (set_sensor gs s) = availableStatics s"
  "initialAltitudeLow (set_sensor gs s) = initialAltitudeLow s"
  "initialVelocityLow (set_sensor gs s) = initialVelocityLow s"
  "velocityDLpf (set_sensor gs s) = velocityDLpf s"
  "velocityUpsampleLpf (set_sensor gs s) = velocityUpsampleLpf s"
  "throttleDLpf (set_sensor gs s) = throttleDLpf s"
  "gpsRescueAngle (set_sensor gs s) = gpsRescueAngle s"
  "rescueThrottle (set_sensor gs s) = rescueThrottle s"
  "rescueYaw (set_sensor gs s) = rescueYaw s"
  "phaseOf (set_intent gi s) = phaseOf s"
  "failureOf (set_intent gi s) = failureOf s"
  "sensorOf (set_intent gi s) = sensorOf s"
  "intentOf (set_intent gi s) = gi (intentOf s)"
  "sanity (set_intent gi s) = sanity s"
  "calls (set_intent gi s) = calls s"
  "magForceDisable (set_intent gi s) = magForceDisable s"
  "newGPSData (set_intent gi s) = newGPSData s"
  "attain (set_intent gi s) = attain s"
  "sensorStatics (set_intent gi s) = sensorStatics s"
  "availableStatics (set_intent gi s) = availableStatics s"
  "initialAltitudeLow (set_intent gi s) = initialAltitudeLow s"
  "initialVelocityLow (set_intent gi s) = initialVelocityLow s"
  "velocityDLpf (set_intent gi s) = velocityDLpf s"
  "velocityUpsampleLpf (set_intent gi s) = velocityUpsampleLpf s"
  "throttleDLpf (set_intent gi s) = throttleDLpf s"
  "gpsRescueAngle (set_intent gi s) = gpsRescueAngle s"
  "rescueThrottle (set_intent gi s) = rescueThrottle s"
  "rescueYaw (set_intent gi s) = rescueYaw s"
  "phaseOf (set_sanity gy s) = phaseOf s"
  "failureOf (set_sanity gy s) = failureOf s"
  "sensorOf (set_sanity gy s) = sensorOf s"
  "intentOf (set_sanity gy s) = intentOf s"
  "sanity (set_sanity gy s) = gy (sanity s)"
  "calls (set_sanity gy s) = calls s"
  "magForceDisable (set_sanity gy s) = magForceDisable s"
  "newGPSData (set_sanity gy s) = newGPSData s"
  "attain (set_sanity gy s) = attain s"
  "sensorStatics (set_sanity gy s) = sensorStatics s"
  "availableStatics (set_sanity gy s) = availableStatics s"
  "initialAltitudeLow (set_sanity gy s) = initialAltitudeLow s"
  "initialVelocityLow (set_sanity gy s) = initialVelocityLow s"
  "velocityDLpf (set_sanity gy s) = velocityDLpf s"
  "velocityUpsampleLpf (set_sanity gy s) = velocityUpsampleLpf s"
  "throttleDLpf (set_sanity gy s) = throttleDLpf s"
  "gpsRescueAngle (set_sanity gy s) = gpsRescueAngle s"
  "rescueThrottle (set_sanity gy s) = rescueThrottle s"
  "rescueYaw (set_sanity gy s) = rescueYaw s"
  "phaseOf (set_attain ga s) = phaseOf s"
  "failureOf (set_attain ga s) = failureOf s"
  "sensorOf (set_attain ga s) = sensorOf s"
  "intentOf (set_attain ga s) = intentOf s"
  "sanity (set_attain ga s) = sanity s"
  "calls (set_attain ga s) = calls s"
  "magForceDisable (set_attain ga s) = magForceDisable s"
  "newGPSData (set_attain ga s) = newGPSData s"
  "attain (set_attain ga s) = ga (attain s)"
  "sensorStatics (set_attain ga s) = sensorStatics s"
  "availableStatics (set_attain ga s) = availableStatics s"
  "initialAltitudeLow (set_attain ga s) = initialAltitudeLow s"
  "initialVelocityLow (set_attain ga s) = initialVelocityLow s"
  "velocityDLpf (set_attain ga s) = velocityDLpf s"
  "velocityUpsampleLpf (set_attain ga s) = velocityUpsampleLpf s"
  "throttleDLpf (set_attain ga s) = throttleDLpf s"
  "gpsRescueAngle (set_attain ga s) = gpsRescueAngle s"
  "rescueThrottle (set_attain ga s) = rescueThrottle s"
  "rescueYaw (set_attain ga s) = rescueYaw s"
  "phaseOf (add_calls cs s) = phaseOf s"
  "failureOf (add_calls cs s) = failureOf s"
  "sensorOf (add_calls cs s) = sensorOf s"
  "intentOf (add_calls cs s) = intentOf s"
  "sanity (add_calls cs s) = sanity s"
  "calls (add_calls cs s) = calls s @ cs"
  "magForceDisable (add_calls cs s) = magForceDisable s"
  "newGPSData (add_calls cs s) = newGPSData s"
  "attain (add_calls cs s) = attain s"
  "sensorStatics (add_calls cs s) = sensorStatics s"
  "availableStatics (add_calls cs s) = availableStatics s"
  "initialAltitudeLow (add_calls cs s) = initialAltitudeLow s"
  "initialVelocityLow (add_calls cs s) = initialVelocityLow s"
  "velocityDLpf (add_calls cs s) = velocityDLpf s"
  "velocityUpsampleLpf (add_calls cs s) = velocityUpsampleLpf s"
  "throttleDLpf (add_calls cs s) = throttleDLpf s"
  "gpsRescueAngle (add_calls cs s) = gpsRescueAngle s"
  "rescueThrottle (add_calls cs s) = rescueThrottle s"
  "rescueYaw (add_calls cs s) = rescueYaw s"
  by (simp_all add: access_defs)

lemma stop_start_frame [simp]:
  "phaseOf (rescueStop s) = RESCUE_IDLE"
  "phaseOf (rescueStart s) = RESCUE_INITIALIZE"
  "failureOf (rescueStop s) = failureOf s"
  "failureOf (rescueStart s) = failureOf s"
  "sensorOf (rescueStop s) = sensorOf s"
  "sensorOf (rescueStart s) = sensorOf s"
  "intentOf (rescueStop s) = intentOf s"
  "intentOf (rescueStart s) = intentOf s"
  "sanity (rescueStop s) = sanity s"
  "sanity (rescueStart s) = sanity s"
  "calls (rescueStop s) = calls s"
  "calls (rescueStart s) = calls s"
  "magForceDisable (rescueStop s) = magForceDisable s"
  "magForceDisable (rescueStart s) = magForceDisable s"
  "newGPSData (rescueStop s) = newGPSData s"
  "newGPSData (rescueStart s) = newGPSData s"
  "attain (rescueStop s) = attain s"
  "attain (rescueStart s) = attain s"
  by (simp_all add: rescueStop_def rescueStart_def)

text \<open>The 1 Hz checks.\<close>

lemma flyaway_frame [simp]:
  "phaseOf (flyawayCheck cfg inp s) = phaseOf s"
  "sensorOf (flyawayCheck cfg inp s) = sensorOf s"
  "calls (flyawayCheck cfg inp s) = calls s"
  "newGPSData (flyawayCheck cfg inp s) = newGPSData s"
  "attain (flyawayCheck cfg inp s) = attain s"
  by (simp_all add: flyawayCheck_def Let_def)


lemma flyaway_sanity:
  "sanity (flyawayCheck cfg inp s) =
     (if phaseOf s = RESCUE_FLY_HOME
      then (sanity s)\<lparr>previousDistanceToHomeCm := distanceToHomeCm (sensorOf s)\<rparr>
      else sanity s)"
  by (simp add: flyawayCheck_def Let_def)

lemma flyaway_intent:
  "intentOf (flyawayCheck cfg inp s) =
     (intentOf s)\<lparr>secondsFailing := secondsFailing (intentOf (flyawayCheck cfg inp s))\<rparr>"
  by (simp add: flyawayCheck_def Let_def)

lemma lowSats_frame [simp]:
  "phaseOf (lowSatsCheck cfg inp s) = phaseOf s"
  "sensorOf (lowSatsCheck cfg inp s) = sensorOf s"
  "intentOf (lowSatsCheck cfg inp s) = intentOf s"
  "calls (lowSatsCheck cfg inp s) = calls s"
  "magForceDisable (lowSatsCheck cfg inp s) = magForceDisable s"
  "newGPSData (lowSatsCheck cfg inp s) = newGPSData s"
  "attain (lowSatsCheck cfg inp s) = attain s"
  by (simp_all add: lowSatsCheck_def Let_def)

lemma lowSats_sanity:
  "sanity (lowSatsCheck cfg inp s) =
     (sanity s)\<lparr>secondsLowSats := secondsLowSats (sanity (lowSatsCheck cfg inp s))\<rparr>"
  by (simp add: lowSatsCheck_def Let_def)


lemma lowSats_failureOf:
  "failureOf (lowSatsCheck cfg inp s) =
     (if secondsLowSats (sanity (lowSatsCheck cfg inp s)) = 10 then RESCUE_LOWSATS else failureOf s)"
  by (simp add: lowSatsCheck_def Let_def)

lemma stuck_frame [simp]:
  "failureOf (stuckAltitudeCheck s) = failureOf s"
  "sensorOf (stuckAltitudeCheck s) = sensorOf s"
  "calls (stuckAltitudeCheck s) = calls s"
  "magForceDisable (stuckAltitudeCheck s) = magForceDisable s"
  "newGPSData (stuckAltitudeCheck s) = newGPSData s"
  "attain (stuckAltitudeCheck s) = attain s"
  by (cases "phaseOf s"; simp add: stuckAltitudeCheck_def Let_def)+

lemma stuck_secondsLowSats [simp]:
  "secondsLowSats (sanity (stuckAltitudeCheck s)) = secondsLowSats (sanity s)"
  by (cases "phaseOf s"; simp add: stuckAltitudeCheck_def Let_def)

lemma stuck_intent:
  "intentOf (stuckAltitudeCheck s) =
     (intentOf s)\<lparr>secondsFailing := secondsFailing (intentOf (stuckAltitudeCheck s))\<rparr>"
  by (cases "phaseOf s"; simp add: stuckAltitudeCheck_def Let_def)

lemma stuck_phaseOf:
  "phaseOf (stuckAltitudeCheck s) =
     (let sf = int8_t (constrain (int8_t (secondsFailing (intentOf s)
                 + (if fquot_gt (stuckAltitudeRatio s) 0.5 then - 1 else 1))) 0 10);
          n = int8_t (min (secondsDoingNothing (sanity s) + 1) 20)
      in case phaseOf s of
           RESCUE_LANDING \<Rightarrow> if sf = 10 then RESCUE_ABORT else RESCUE_LANDING
         | RESCUE_ATTAIN_ALT \<Rightarrow> if sf = 10 then RESCUE_LANDING else RESCUE_ATTAIN_ALT
         | RESCUE_DESCENT \<Rightarrow> if sf = 10 then RESCUE_LANDING else RESCUE_DESCENT
         | RESCUE_DO_NOTHING \<Rightarrow> if n = 20 then RESCUE_ABORT else RESCUE_DO_NOTHING
         | p \<Rightarrow> p)"
  by (cases "phaseOf s"; simp add: stuckAltitudeCheck_def Let_def)

lemma stuck_secondsFailing:
  "secondsFailing (intentOf (stuckAltitudeCheck s)) =
     (let sf = int8_t (constrain (int8_t (secondsFailing (intentOf s)
                 + (if fquot_gt (stuckAltitudeRatio s) 0.5 then - 1 else 1))) 0 10)
      in case phaseOf s of
           RESCUE_LANDING \<Rightarrow> sf
         | RESCUE_ATTAIN_ALT \<Rightarrow> if sf = 10 then 0 else sf
         | RESCUE_DESCENT \<Rightarrow> if sf = 10 then 0 else sf
         | _ \<Rightarrow> secondsFailing (intentOf s))"
  by (cases "phaseOf s"; simp add: stuckAltitudeCheck_def Let_def)

lemma lowSats_sanity_fields [simp]:
  "previousTimeUs (sanity (lowSatsCheck cfg inp s)) = previousTimeUs (sanity s)"
  "prevAltitudeCm (sanity (lowSatsCheck cfg inp s)) = prevAltitudeCm (sanity s)"
  "prevTargetAltitudeCm (sanity (lowSatsCheck cfg inp s)) = prevTargetAltitudeCm (sanity s)"
  "previousDistanceToHomeCm (sanity (lowSatsCheck cfg inp s)) = previousDistanceToHomeCm (sanity s)"
  "secondsDoingNothing (sanity (lowSatsCheck cfg inp s)) = secondsDoingNothing (sanity s)"
  by (simp_all add: lowSatsCheck_def Let_def)

lemma flyaway_sanity_fields [simp]:
  "previousTimeUs (sanity (flyawayCheck cfg inp s)) = previousTimeUs (sanity s)"
  "prevAltitudeCm (sanity (flyawayCheck cfg inp s)) = prevAltitudeCm (sanity s)"
  "prevTargetAltitudeCm (sanity (flyawayCheck cfg inp s)) = prevTargetAltitudeCm (sanity s)"
  "secondsLowSats (sanity (flyawayCheck cfg inp s)) = secondsLowSats (sanity s)"
  "secondsDoingNothing (sanity (flyawayCheck cfg inp s)) = secondsDoingNothing (sanity s)"
  by (simp_all add: flyaway_sanity)

lemma flyaway_flying:
  assumes "phaseOf s = RESCUE_FLY_HOME"
    and "0 \<le> secondsFailing (intentOf s)" and "secondsFailing (intentOf s) \<le> 15"
  shows "secondsFailing (intentOf (flyawayCheck cfg inp s)) =
           (let n = constrain (secondsFailing (intentOf s)
                      + (if previousDistanceToHomeCm (sanity s) - distanceToHomeCm (sensorOf s)
                            < 0.5 * targetVelocityCmS (intentOf s) then 1 else - 1)) 0 15
            in if n = 15 \<and> USE_MAG cfg \<and> sensors_SENSOR_MAG inp \<and> cfg_useMag (gpsRescueConfig cfg)
                  \<and> \<not> magForceDisable s then 0 else n)"
    and "magForceDisable (flyawayCheck cfg inp s) =
           (magForceDisable s \<or>
            constrain (secondsFailing (intentOf s)
                      + (if previousDistanceToHomeCm (sanity s) - distanceToHomeCm (sensorOf s)
                            < 0.5 * targetVelocityCmS (intentOf s) then 1 else - 1)) 0 15 = 15
            \<and> USE_MAG cfg \<and> sensors_SENSOR_MAG inp \<and> cfg_useMag (gpsRescueConfig cfg))"
    and "failureOf (flyawayCheck cfg inp s) =
           (if constrain (secondsFailing (intentOf s)
                      + (if previousDistanceToHomeCm (sanity s) - distanceToHomeCm (sensorOf s)
                            < 0.5 * targetVelocityCmS (intentOf s) then 1 else - 1)) 0 15 = 15
               \<and> \<not> (USE_MAG cfg \<and> sensors_SENSOR_MAG inp \<and> cfg_useMag (gpsRescueConfig cfg)
                      \<and> \<not> magForceDisable s)
            then RESCUE_FLYAWAY else failureOf s)"
proof -
  have i: "int8_t (secondsFailing (intentOf s) + 1) = secondsFailing (intentOf s) + 1"
    "int8_t (secondsFailing (intentOf s) - 1) = secondsFailing (intentOf s) - 1"
    using assms(2,3) by (simp_all add: int8_t_id)
  have c: "int8_t (constrain x 0 15) = constrain x 0 15" for x
    by (rule int8_constrain) simp_all
  show "secondsFailing (intentOf (flyawayCheck cfg inp s)) =
           (let n = constrain (secondsFailing (intentOf s)
                      + (if previousDistanceToHomeCm (sanity s) - distanceToHomeCm (sensorOf s)
                            < 0.5 * targetVelocityCmS (intentOf s) then 1 else - 1)) 0 15
            in if n = 15 \<and> USE_MAG cfg \<and> sensors_SENSOR_MAG inp \<and> cfg_useMag (gpsRescueConfig cfg)
                  \<and> \<not> magForceDisable s then 0 else n)"
    using assms(1) by (simp add: flyawayCheck_def Let_def i c)
  show "magForceDisable (flyawayCheck cfg inp s) =
           (magForceDisable s \<or>
            constrain (secondsFailing (intentOf s)
                      + (if previousDistanceToHomeCm (sanity s) - distanceToHomeCm (sensorOf s)
                            < 0.5 * targetVelocityCmS (intentOf s) then 1 else - 1)) 0 15 = 15
            \<and> USE_MAG cfg \<and> sensors_SENSOR_MAG inp \<and> cfg_useMag (gpsRescueConfig cfg))"
    using assms(1) by (auto simp add: flyawayCheck_def Let_def i c)
  show "failureOf (flyawayCheck cfg inp s) =
           (if constrain (secondsFailing (intentOf s)
                      + (if previousDistanceToHomeCm (sanity s) - distanceToHomeCm (sensorOf s)
                            < 0.5 * targetVelocityCmS (intentOf s) then 1 else - 1)) 0 15 = 15
               \<and> \<not> (USE_MAG cfg \<and> sensors_SENSOR_MAG inp \<and> cfg_useMag (gpsRescueConfig cfg)
                      \<and> \<not> magForceDisable s)
            then RESCUE_FLYAWAY else failureOf s)"
    using assms(1) by (auto simp add: flyawayCheck_def Let_def i c)
qed

lemma flyaway_magForceDisable_mono:
  "magForceDisable s \<Longrightarrow> magForceDisable (flyawayCheck cfg inp s)"
  by (simp add: flyawayCheck_def Let_def)

text \<open>The supervisor as a whole.\<close>

lemma sanity_idle:
  "phaseOf s = RESCUE_IDLE \<Longrightarrow> performSanityChecks cfg inp now s = set_failure RESCUE_HEALTHY s"
  by (simp add: performSanityChecks_def)

lemma sanity_phaseOf:
  assumes "phaseOf s \<noteq> RESCUE_IDLE"
  shows "phaseOf (performSanityChecks cfg inp now s) =
           (let p = (if crashRecoveryModeActive inp then RESCUE_IDLE
                     else phaseOf (sanityFailureResponse cfg inp s))
            in if phaseOf s = RESCUE_INITIALIZE \<or> cmpTimeUs now (previousTimeUs (sanity s)) < 1000000
               then p
               else phaseOf (stuckAltitudeCheck
                      (lowSatsCheck cfg inp
                        (flyawayCheck cfg inp
                          (set_sanity (\<lambda>x. x\<lparr>previousTimeUs := now\<rparr>) (sanityEveryCall cfg inp now s))))))"
  using assms
  by (simp add: performSanityChecks_def Let_def everyCall_phaseOf everyCall_sanity cmpTimeUs_def)

lemma sanity_magForceDisable_mono:
  "magForceDisable s \<Longrightarrow> magForceDisable (performSanityChecks cfg inp now s)"
  by (simp add: performSanityChecks_def Let_def flyaway_magForceDisable_mono)

lemma sanity_frame [simp]:
  "sensorOf (performSanityChecks cfg inp now s) = sensorOf s"
  "newGPSData (performSanityChecks cfg inp now s) = newGPSData s"
  "attain (performSanityChecks cfg inp now s) = attain s"
proof -
  have a: "newGPSData (sanityEveryCall cfg inp now x) = newGPSData x"
          "attain (sanityEveryCall cfg inp now x) = attain x" for x
    by (cases "cfg_sanityChecks (gpsRescueConfig cfg)";
        simp add: sanityEveryCall_def sanityFailureResponse_def Let_def)+
  show "sensorOf (performSanityChecks cfg inp now s) = sensorOf s"
    "newGPSData (performSanityChecks cfg inp now s) = newGPSData s"
    "attain (performSanityChecks cfg inp now s) = attain s"
    by (simp_all add: performSanityChecks_def Let_def a)
qed

lemma descend_frame [simp]:
  "phaseOf (descend cfg s) = phaseOf s"
  "failureOf (descend cfg s) = failureOf s"
  "sensorOf (descend cfg s) = sensorOf s"
  "sanity (descend cfg s) = sanity s"
  "calls (descend cfg s) = calls s"
  "magForceDisable (descend cfg s) = magForceDisable s"
  "newGPSData (descend cfg s) = newGPSData s"
  "attain (descend cfg s) = attain s"
  by (simp_all add: descend_def Let_def)

lemma disarmOnImpact_frame [simp]:
  "failureOf (disarmOnImpact s) = failureOf s"
  "sensorOf (disarmOnImpact s) = sensorOf s"
  "intentOf (disarmOnImpact s) = intentOf s"
  "sanity (disarmOnImpact s) = sanity s"
  "magForceDisable (disarmOnImpact s) = magForceDisable s"
  "newGPSData (disarmOnImpact s) = newGPSData s"
  "attain (disarmOnImpact s) = attain s"
  by (simp_all add: disarmOnImpact_def)

lemma setReturnAltitude_frame [simp]:
  "phaseOf (setReturnAltitude cfg inp s) = phaseOf s"
  "failureOf (setReturnAltitude cfg inp s) = failureOf s"
  "sensorOf (setReturnAltitude cfg inp s) = sensorOf s"
  "sanity (setReturnAltitude cfg inp s) = sanity s"
  "calls (setReturnAltitude cfg inp s) = calls s"
  "magForceDisable (setReturnAltitude cfg inp s) = magForceDisable s"
  "newGPSData (setReturnAltitude cfg inp s) = newGPSData s"
  "attain (setReturnAltitude cfg inp s) = attain s"
  by (simp_all add: setReturnAltitude_def Let_def)

lemma switch_frame [simp]:
  "sensorOf (gpsRescueUpdate_switch cfg inp s) = sensorOf s"
  "sanity (gpsRescueUpdate_switch cfg inp s) = sanity s"
  "magForceDisable (gpsRescueUpdate_switch cfg inp s) = magForceDisable s"
  "newGPSData (gpsRescueUpdate_switch cfg inp s) = newGPSData s"
  "attain (gpsRescueUpdate_switch cfg inp s) = attain s"
  by (cases "phaseOf s"; simp add: gpsRescueUpdate_switch_def Let_def)+

lemma sensorUpdate_frame [simp]:
  "phaseOf (sensorUpdate inp s) = phaseOf s"
  "failureOf (sensorUpdate inp s) = failureOf s"
  "intentOf (sensorUpdate inp s) = intentOf s"
  "sanity (sensorUpdate inp s) = sanity s"
  "calls (sensorUpdate inp s) = calls s"
  "magForceDisable (sensorUpdate inp s) = magForceDisable s"
  "newGPSData (sensorUpdate inp s) = newGPSData s"
  "attain (sensorUpdate inp s) = attain s"
  by (simp_all add: sensorUpdate_def Let_def)

lemma start_frame [simp]:
  "sensorOf (gpsRescueUpdate_start cfg inp s) = sensorOf s"
  "newGPSData (gpsRescueUpdate_start cfg inp s) = newGPSData s"
  by (simp_all add: gpsRescueUpdate_start_def)

lemma start_magForceDisable_mono:
  "magForceDisable s \<Longrightarrow> magForceDisable (gpsRescueUpdate_start cfg inp s)"
  by (simp add: gpsRescueUpdate_start_def sanity_magForceDisable_mono)

lemma sensed_frame [simp]:
  "phaseOf (gpsRescueUpdate_sensed cfg inp s) = phaseOf (gpsRescueUpdate_start cfg inp s)"
  "failureOf (gpsRescueUpdate_sensed cfg inp s) = failureOf (gpsRescueUpdate_start cfg inp s)"
  "sensorOf (gpsRescueUpdate_sensed cfg inp s) = sensorOf (sensorUpdate inp (gpsRescueUpdate_start cfg inp s))"
  "intentOf (gpsRescueUpdate_sensed cfg inp s) = intentOf (gpsRescueUpdate_start cfg inp s)"
  "sanity (gpsRescueUpdate_sensed cfg inp s) = sanity (gpsRescueUpdate_start cfg inp s)"
  "calls (gpsRescueUpdate_sensed cfg inp s) = calls (gpsRescueUpdate_start cfg inp s)"
  "magForceDisable (gpsRescueUpdate_sensed cfg inp s) = magForceDisable (gpsRescueUpdate_start cfg inp s)"
  "newGPSData (gpsRescueUpdate_sensed cfg inp s) = newGPSData s"
  "attain (gpsRescueUpdate_sensed cfg inp s) = attain (gpsRescueUpdate_start cfg inp s)"
  by (simp_all add: gpsRescueUpdate_sensed_def Let_def split_def phaseOf_def failureOf_def
      sensorOf_def intentOf_def sensorUpdate_frame [unfolded phaseOf_def failureOf_def intentOf_def])

lemma update_magForceDisable_mono:
  "magForceDisable s \<Longrightarrow> magForceDisable (gpsRescueUpdate cfg inp s)"
  by (simp add: gpsRescueUpdate_def Let_def sanity_magForceDisable_mono start_magForceDisable_mono)

lemma stuck_idle_iff:
  "phaseOf (stuckAltitudeCheck s) = RESCUE_IDLE \<longleftrightarrow> phaseOf s = RESCUE_IDLE"
  by (cases "phaseOf s") (simp_all add: stuck_phaseOf Let_def)

lemma failureResponse_idle_iff:
  "phaseOf (sanityFailureResponse cfg inp s) = RESCUE_IDLE \<longleftrightarrow>
     phaseOf s = RESCUE_IDLE \<and> failureOf s = RESCUE_HEALTHY"
  by (simp add: failureResponse_phaseOf)

lemma sanity_leaves_idle_by_crash_only:
  assumes "phaseOf (performSanityChecks cfg inp now s) = RESCUE_IDLE"
    and "\<not> crashRecoveryModeActive inp"
  shows "phaseOf s = RESCUE_IDLE"
proof (rule ccontr)
  assume n: "phaseOf s \<noteq> RESCUE_IDLE"
  then have r: "phaseOf (sanityFailureResponse cfg inp s) \<noteq> RESCUE_IDLE"
    by (simp add: failureResponse_idle_iff)
  have e: "phaseOf (sanityEveryCall cfg inp now s) \<noteq> RESCUE_IDLE"
    using assms(2) r by (simp add: everyCall_phaseOf)
  from assms(1) n e show False
    by (simp add: performSanityChecks_def Let_def stuck_idle_iff split: if_splits)
qed

lemma step_simps:
  "step cfg (False, inp) s = gpsRescueUpdate cfg inp s"
  "step cfg (True, inp) s = gpsRescueUpdate cfg inp (gpsRescueNewGpsData s)"
  by (simp_all add: step_def)

lemma newGpsData_frame [simp]:
  "rescueState (gpsRescueNewGpsData s) = rescueState s"
  "phaseOf (gpsRescueNewGpsData s) = phaseOf s"
  "failureOf (gpsRescueNewGpsData s) = failureOf s"
  "sensorOf (gpsRescueNewGpsData s) = sensorOf s"
  "intentOf (gpsRescueNewGpsData s) = intentOf s"
  "sanity (gpsRescueNewGpsData s) = sanity s"
  "calls (gpsRescueNewGpsData s) = calls s"
  "magForceDisable (gpsRescueNewGpsData s) = magForceDisable s"
  "attain (gpsRescueNewGpsData s) = attain s"
  "newGPSData (gpsRescueNewGpsData s) = True"
  by (simp_all add: gpsRescueNewGpsData_def)

lemma sanity_initialize_phaseOf:
  assumes "phaseOf s = RESCUE_INITIALIZE"
  shows "phaseOf (performSanityChecks cfg inp now s) =
           (if crashRecoveryModeActive inp then RESCUE_IDLE
            else phaseOf (sanityFailureResponse cfg inp s))"
  using assms by (simp add: sanity_phaseOf Let_def)

lemma start_phaseOf:
  "phaseOf (gpsRescueUpdate_start cfg inp s) =
     (if \<not> FLIGHT_MODE_GPS_RESCUE inp then RESCUE_IDLE
      else if phaseOf s = RESCUE_IDLE then
        (if crashRecoveryModeActive inp then RESCUE_IDLE
         else phaseOf (sanityFailureResponse cfg inp (rescueAttainPosition cfg inp (rescueStart s))))
      else phaseOf s)"
  by (simp add: gpsRescueUpdate_start_def sanity_initialize_phaseOf)

lemma start_landing_iff:
  "phaseOf (gpsRescueUpdate_start cfg inp s) = RESCUE_LANDING \<longleftrightarrow>
     FLIGHT_MODE_GPS_RESCUE inp \<and> phaseOf s = RESCUE_LANDING"
  by (simp add: start_phaseOf failureResponse_phaseOf)

lemma start_running:
  "FLIGHT_MODE_GPS_RESCUE inp \<Longrightarrow> phaseOf s \<noteq> RESCUE_IDLE \<Longrightarrow> gpsRescueUpdate_start cfg inp s = s"
  by (simp add: gpsRescueUpdate_start_def)

lemma sensorUpdate_accMagnitude:
  "accMagnitude (sensorOf (sensorUpdate inp s)) =
     (if phaseOf s = RESCUE_LANDING then accMagnitudeReading inp else accMagnitude (sensorOf s))"
  by (simp add: sensorUpdate_def Let_def accMagnitudeReading_def)

lemma update_sensorOf:
  "sensorOf (gpsRescueUpdate cfg inp s) = sensorOf (sensorUpdate inp (gpsRescueUpdate_start cfg inp s))"
  by (simp add: gpsRescueUpdate_def Let_def)

lemma update_accMagnitude:
  "accMagnitude (sensorOf (gpsRescueUpdate cfg inp s)) =
     (if phaseOf s = RESCUE_LANDING \<and> FLIGHT_MODE_GPS_RESCUE inp
      then accMagnitudeReading inp else accMagnitude (sensorOf s))"
  by (simp add: update_sensorOf sensorUpdate_accMagnitude start_landing_iff)

lemma step_accMagnitude:
  "accMagnitude (sensorOf (step cfg t s)) =
     (if phaseOf s = RESCUE_LANDING \<and> FLIGHT_MODE_GPS_RESCUE (snd t)
      then accMagnitudeReading (snd t) else accMagnitude (sensorOf s))"
  by (simp add: step_def update_accMagnitude)

lemma run_accMagnitude:
  "accMagnitude (sensorOf (run cfg s ts)) = heldAccMagnitude cfg (accMagnitude (sensorOf s)) s ts"
proof (induction ts arbitrary: s)
  case Nil
  show ?case by simp
next
  case (Cons t ts)
  show ?case by (simp add: Cons.IH step_accMagnitude)
qed

lemma everyCall_calls:
  "calls (sanityEveryCall cfg inp now s) =
     calls s @ (if crashRecoveryModeActive inp
                then [setArmingDisabled_ARM_SWITCH, disarm DISARM_REASON_CRASH_PROTECTION] else [])"
  by (simp add: sanityEveryCall_def Let_def)

lemma sanity_calls:
  "calls (performSanityChecks cfg inp now s) =
     calls s @ (if phaseOf s \<noteq> RESCUE_IDLE \<and> crashRecoveryModeActive inp
                then [setArmingDisabled_ARM_SWITCH, disarm DISARM_REASON_CRASH_PROTECTION] else [])"
  by (simp add: performSanityChecks_def Let_def everyCall_calls)

lemma update_calls:
  "calls (gpsRescueUpdate cfg inp s) =
     calls (performSanityChecks cfg inp (micros_sanity inp)
              (gpsRescueUpdate_switch cfg inp (gpsRescueUpdate_sensed cfg inp s)))"
  by (simp add: gpsRescueUpdate_def Let_def)

lemma switch_doing_nothing:
  assumes "phaseOf s = RESCUE_DO_NOTHING"
  shows "gpsRescueUpdate_switch cfg inp s = disarmOnImpact s"
  using assms by (simp add: gpsRescueUpdate_switch_def Let_def)

lemma disarmOnImpact_calls:
  "calls (disarmOnImpact s) =
     calls s @ (if disarmThreshold (intentOf s) < accMagnitude (sensorOf s)
                then [setArmingDisabled_ARM_SWITCH, disarm DISARM_REASON_GPS_RESCUE] else [])"
  by (simp add: disarmOnImpact_def)



lemma sensorUpdate_currentAltitudeCm [simp]:
  "currentAltitudeCm (sensorOf (sensorUpdate inp s)) = getAltitude inp"
  by (simp add: sensorUpdate_def Let_def)

lemma sensed_fields [simp]:
  "initialAltitudeLow (gpsRescueUpdate_sensed cfg inp s) = initialAltitudeLow (gpsRescueUpdate_start cfg inp s)"
  "gpsRescueTaskIntervalSeconds (sensorOf (sensorUpdate inp s)) = gpsRescueTaskIntervalSeconds (sensorOf s)"
  "altitudeDataIntervalSeconds (sensorOf (sensorUpdate inp s)) =
     real_of_int (cmpTimeUs (micros_sensor inp) (previousAltitudeDataTimeUs (sensorStatics s))) * 0.000001"
  by (simp_all add: gpsRescueUpdate_sensed_def sensorUpdate_def Let_def split_def)

lemma newGpsData_statics [simp]:
  "sensorStatics (gpsRescueNewGpsData s) = sensorStatics s"
  "initialAltitudeLow (gpsRescueNewGpsData s) = initialAltitudeLow s"
  by (simp_all add: gpsRescueNewGpsData_def)

text \<open>A call with no new GPS data.\<close>

lemma sensorUpdate_no_gps:
  assumes "\<not> newGPSData s"
  shows "distanceToHomeCm (sensorOf (sensorUpdate inp s)) = distanceToHomeCm (sensorOf s)"
    and "distanceToHomeM (sensorOf (sensorUpdate inp s)) = distanceToHomeM (sensorOf s)"
    and "groundSpeedCmS (sensorOf (sensorUpdate inp s)) = groundSpeedCmS (sensorOf s)"
    and "gpsDataIntervalSeconds (sensorOf (sensorUpdate inp s)) = gpsDataIntervalSeconds (sensorOf s)"
    and "velocityToHomeCmS (sensorOf (sensorUpdate inp s)) = velocityToHomeCmS (sensorOf s)"
    and "prevDistanceToHomeCm (sensorStatics (sensorUpdate inp s)) = prevDistanceToHomeCm (sensorStatics s)"
  using assms by (simp_all add: sensorUpdate_def Let_def)

lemma attain_no_gps:
  assumes "\<not> newGPSData s"
  shows "pitchAdjustment (attain (rescueAttainPosition cfg inp s)) = pitchAdjustment (attain s)"
    and "velocityDLpf (rescueAttainPosition cfg inp s) = velocityDLpf s"
    and "phaseOf s \<noteq> RESCUE_INITIALIZE \<Longrightarrow>
           velocityI (attain (rescueAttainPosition cfg inp s)) = velocityI (attain s)
           \<and> previousVelocityError (attain (rescueAttainPosition cfg inp s)) = previousVelocityError (attain s)"
    and "phaseOf s \<noteq> RESCUE_IDLE \<Longrightarrow> phaseOf s \<noteq> RESCUE_INITIALIZE \<Longrightarrow> phaseOf s \<noteq> RESCUE_DO_NOTHING \<Longrightarrow>
           gpsRescueAngle (rescueAttainPosition cfg inp s) AI_PITCH
             = snd (pt3FilterApply (velocityUpsampleLpf s) (pitchAdjustment (attain s)))"
proof -
  have v: "rescueAttainPosition_velocity cfg x =
      x\<lparr>velocityUpsampleLpf := fst (pt3FilterApply (velocityUpsampleLpf x) (pitchAdjustment (attain x))),
        gpsRescueAngle := (gpsRescueAngle x)(AI_PITCH :=
           snd (pt3FilterApply (velocityUpsampleLpf x) (pitchAdjustment (attain x))))\<rparr>"
    if "\<not> newGPSData x" for x
    using that by (simp add: rescueAttainPosition_velocity_def Let_def split_def)
  let ?h = "rescueAttainPosition_heading cfg (rescueAttainPosition_altitude cfg inp s)"
  have n: "\<not> newGPSData ?h" using assms by simp
  show "pitchAdjustment (attain (rescueAttainPosition cfg inp s)) = pitchAdjustment (attain s)"
    by (cases "phaseOf s"; simp add: rescueAttainPosition_def v [OF n])
  show "velocityDLpf (rescueAttainPosition cfg inp s) = velocityDLpf s"
    by (cases "phaseOf s"; simp add: rescueAttainPosition_def v [OF n])
  show "phaseOf s \<noteq> RESCUE_INITIALIZE \<Longrightarrow>
           velocityI (attain (rescueAttainPosition cfg inp s)) = velocityI (attain s)
           \<and> previousVelocityError (attain (rescueAttainPosition cfg inp s)) = previousVelocityError (attain s)"
    by (cases "phaseOf s"; simp add: rescueAttainPosition_def v [OF n])
  show "phaseOf s \<noteq> RESCUE_IDLE \<Longrightarrow> phaseOf s \<noteq> RESCUE_INITIALIZE \<Longrightarrow> phaseOf s \<noteq> RESCUE_DO_NOTHING \<Longrightarrow>
           gpsRescueAngle (rescueAttainPosition cfg inp s) AI_PITCH
             = snd (pt3FilterApply (velocityUpsampleLpf s) (pitchAdjustment (attain s)))"
    by (cases "phaseOf s"; simp add: rescueAttainPosition_def v [OF n])
qed

lemma start_pitchAdjustment:
  assumes "\<not> newGPSData s"
  shows "pitchAdjustment (attain (gpsRescueUpdate_start cfg inp s)) = pitchAdjustment (attain s)"
proof -
  have "\<not> newGPSData (rescueStart s)" using assms by simp
  then show ?thesis
    by (simp add: gpsRescueUpdate_start_def attain_no_gps(1))
qed

text \<open>The states of the examples.\<close>

lemma airborneNearHome_facts:
  "phaseOf airborneNearHome = RESCUE_INITIALIZE"
  "distanceToHomeM (sensorOf airborneNearHome) = 10"
  "currentAltitudeCm (sensorOf airborneNearHome) = 800"
  by (simp_all add: airborneNearHome_def)

lemma gpsLostFlyingHome_facts:
  "phaseOf gpsLostFlyingHome = RESCUE_FLY_HOME"
  "failureOf gpsLostFlyingHome = RESCUE_GPSLOST"
  "previousTimeUs (sanity gpsLostFlyingHome) = 0"
  by (simp_all add: gpsLostFlyingHome_def flyingHome_def idleState_def init_defs Let_def)

lemma flyingHome_facts:
  "phaseOf flyingHome = RESCUE_FLY_HOME"
  "failureOf flyingHome = RESCUE_HEALTHY"
  "\<not> newGPSData flyingHome"
  "distanceToHomeM (sensorOf flyingHome) = 99"
  "pitchAdjustment (attain flyingHome) = 0"
  "secondsFailing (intentOf flyingHome) = 14"
  "previousDistanceToHomeCm (sanity flyingHome) = 10000"
  "distanceToHomeCm (sensorOf flyingHome) = 9900"
  "targetVelocityCmS (intentOf flyingHome) = 1000"
  "previousTimeUs (sanity flyingHome) = 0"
  "magForceDisable flyingHome = False"
  by (simp_all add: flyingHome_def idleState_def init_defs Let_def access_defs)

lemma doingNothing_facts:
  "phaseOf doingNothing = RESCUE_DO_NOTHING"
  "accMagnitude (sensorOf doingNothing) = 5 / 2"
  "disarmThreshold (intentOf doingNothing) = 2"
  "calls doingNothing = []"
  by (simp_all add: doingNothing_def landing_def idleState_def init_defs Let_def access_defs)

lemma idleState_facts:
  "phaseOf idleState = RESCUE_IDLE"
  "failureOf idleState = RESCUE_HEALTHY"
  "calls idleState = []"
  "\<not> newGPSData idleState"
  by (simp_all add: idleState_def init_defs Let_def access_defs)

lemmas example_defs = config0_def inputs0_def idleState_def at_time_def tickIdle_def
  tickRescue_def tickGround_def tickGroundRescue_def step_def

lemma groundReady_facts:
  "phaseOf groundReady = RESCUE_IDLE"
  "failureOf groundReady = RESCUE_HEALTHY"
  "healthy (sensorOf groundReady)"
  "\<not> newGPSData groundReady"
  "distanceToHomeM (sensorOf groundReady) = 3"
  "calls groundReady = []"
  by (simp_all add: groundReady_def example_defs model_defs access_defs Let_def)




lemma stuck_intent_fields [simp]:
  "yawAttenuator (intentOf (stuckAltitudeCheck s)) = yawAttenuator (intentOf s)"
  "velocityItermRelax (intentOf (stuckAltitudeCheck s)) = velocityItermRelax (intentOf s)"
  "proximityToLandingArea (intentOf (stuckAltitudeCheck s)) = proximityToLandingArea (intentOf s)"
  "targetAltitudeCm (intentOf (stuckAltitudeCheck s)) = targetAltitudeCm (intentOf s)"
  by (cases "phaseOf s"; simp add: stuckAltitudeCheck_def Let_def)+

lemma flyaway_intent_fields [simp]:
  "yawAttenuator (intentOf (flyawayCheck cfg inp s)) = yawAttenuator (intentOf s)"
  "velocityItermRelax (intentOf (flyawayCheck cfg inp s)) = velocityItermRelax (intentOf s)"
  "proximityToLandingArea (intentOf (flyawayCheck cfg inp s)) = proximityToLandingArea (intentOf s)"
  "targetAltitudeCm (intentOf (flyawayCheck cfg inp s)) = targetAltitudeCm (intentOf s)"
  by (simp_all add: flyawayCheck_def Let_def)




lemma sensorUpdate_taskInterval [simp]:
  "gpsRescueTaskIntervalSeconds (sensorOf (sensorUpdate inp s)) = gpsRescueTaskIntervalSeconds (sensorOf s)"
  by (simp add: sensorUpdate_def Let_def)

















lemma sensorUpdate_readings [simp]:
  "healthy (sensorOf (sensorUpdate inp s)) = gpsIsHealthy inp"
  "absErrorAngle (sensorOf (sensorUpdate inp s)) = \<bar>errorAngle (sensorOf (sensorUpdate inp s))\<bar>"
  by (simp_all add: sensorUpdate_def Let_def)













text \<open>The stuck-altitude ratio.\<close>

lemma sanity_by_entry:
  "performSanityChecks cfg inp now s =
     (case sanity1HzEntry cfg inp now s of
        Some q \<Rightarrow> stuckAltitudeCheck q
      | None \<Rightarrow> if phaseOf s = RESCUE_IDLE then set_failure RESCUE_HEALTHY s
                else sanityEveryCall cfg inp now s)"
  by (simp add: performSanityChecks_def sanity1HzEntry_def Let_def)


















section \<open>The properties\<close>

text \<open>
  Claim C1, as amended. In the \<^verbatim>\<open>RESCUE_INITIALIZE\<close> case of the phase machine,
  with a home fix (\<^verbatim>\<open>STATE(GPS_FIX_HOME)\<close>) and \<open>distanceToHomeM\<close> below
  \<open>minRescueDth\<close>: if \<open>distanceToHomeM\<close> is also below 5 m and
  \<open>currentAltitudeCm\<close> is below \<open>targetLandingAltitudeCm\<close> (just set to
  100 times the configured landing altitude), the phase becomes abort;
  otherwise it becomes landing with \<open>targetVelocityCmS\<close>,
  \<open>pitchAngleLimitDeg\<close>, \<open>rollAngleLimitDeg\<close> and
  \<open>proximityToLandingArea\<close> all 0. Without a home fix the code takes its
  first branch instead: the failure becomes \<^verbatim>\<open>RESCUE_NO_HOME_POINT\<close> and the
  phase stays at initialize (the counterexample below).
\<close>

theorem initialize_inside_minRescueDth:
  assumes "phaseOf s = RESCUE_INITIALIZE"
    and "STATE_GPS_FIX_HOME inp"
    and "distanceToHomeM (sensorOf s) < real_of_int (cfg_minRescueDth (gpsRescueConfig cfg))"
  shows "(if distanceToHomeM (sensorOf s) < 5
             \<and> currentAltitudeCm (sensorOf s)
                 < targetLandingAltitudeCm (intentOf (gpsRescueUpdate_switch cfg inp s))
          then phaseOf (gpsRescueUpdate_switch cfg inp s) = RESCUE_ABORT
          else phaseOf (gpsRescueUpdate_switch cfg inp s) = RESCUE_LANDING
             \<and> targetVelocityCmS (intentOf (gpsRescueUpdate_switch cfg inp s)) = 0
             \<and> pitchAngleLimitDeg (intentOf (gpsRescueUpdate_switch cfg inp s)) = 0
             \<and> rollAngleLimitDeg (intentOf (gpsRescueUpdate_switch cfg inp s)) = 0
             \<and> proximityToLandingArea (intentOf (gpsRescueUpdate_switch cfg inp s)) = 0)
         \<and> targetLandingAltitudeCm (intentOf (gpsRescueUpdate_switch cfg inp s))
             = 100 * real_of_int (cfg_targetLandingAltitudeM (gpsRescueConfig cfg))"
  using assms by (simp add: gpsRescueUpdate_switch_def Let_def)

theorem initialize_inside_minRescueDth_witness:
  "phaseOf airborneNearHome = RESCUE_INITIALIZE
   \<and> STATE_GPS_FIX_HOME inputs0
   \<and> distanceToHomeM (sensorOf airborneNearHome) < real_of_int (cfg_minRescueDth (gpsRescueConfig config0))
   \<and> phaseOf (gpsRescueUpdate_switch config0 inputs0 airborneNearHome) = RESCUE_LANDING
   \<and> targetVelocityCmS (intentOf (gpsRescueUpdate_switch config0 inputs0 airborneNearHome)) = 0
   \<and> pitchAngleLimitDeg (intentOf (gpsRescueUpdate_switch config0 inputs0 airborneNearHome)) = 0"
  using initialize_inside_minRescueDth [of airborneNearHome inputs0 config0]
  by (simp add: airborneNearHome_facts config0_def inputs0_def)

theorem initialize_without_home_counterexample:
  "phaseOf airborneNearHome = RESCUE_INITIALIZE
   \<and> distanceToHomeM (sensorOf airborneNearHome)
       < real_of_int (cfg_minRescueDth (gpsRescueConfig config0))
   \<and> \<not> distanceToHomeM (sensorOf airborneNearHome) < 5
   \<and> phaseOf (gpsRescueUpdate_switch config0 (inputs0\<lparr>STATE_GPS_FIX_HOME := False\<rparr>) airborneNearHome)
       = RESCUE_INITIALIZE
   \<and> failureOf (gpsRescueUpdate_switch config0 (inputs0\<lparr>STATE_GPS_FIX_HOME := False\<rparr>) airborneNearHome)
       = RESCUE_NO_HOME_POINT"
  by (simp add: airborneNearHome_facts config0_def inputs0_def gpsRescueUpdate_switch_def Let_def)

text \<open>
  Claim C2, as amended. When \<^verbatim>\<open>performSanityChecks\<close> is entered with a phase
  other than idle and a failure other than healthy, and crash recovery is not
  active, it leaves the phase at abort when \<open>sanityChecks\<close> is on; or
  when it is failsafe-only and the receiver has no signal; or when it is
  neither, arming without fix is allowed, there is no home fix and the receiver
  has no signal. Otherwise it leaves the phase at do-nothing, unless this call
  is a 1 Hz pass that brings \<open>secondsDoingNothing\<close> to 20, which
  turns do-nothing into abort. Entered with the phase at idle, the supervisor
  resets the failure and returns, whatever the failure was (the
  counterexample below).
\<close>

theorem sanity_failure_response:
  assumes "phaseOf s \<noteq> RESCUE_IDLE"
    and "failureOf s \<noteq> RESCUE_HEALTHY"
    and "\<not> crashRecoveryModeActive inp"
  shows "phaseOf (performSanityChecks cfg inp now s) =
     (if cfg_sanityChecks (gpsRescueConfig cfg) = RESCUE_SANITY_ON
         \<or> cfg_sanityChecks (gpsRescueConfig cfg) = RESCUE_SANITY_FS_ONLY \<and> \<not> rxIsReceivingSignal inp
         \<or> cfg_sanityChecks (gpsRescueConfig cfg) \<noteq> RESCUE_SANITY_ON
             \<and> cfg_sanityChecks (gpsRescueConfig cfg) \<noteq> RESCUE_SANITY_FS_ONLY
             \<and> cfg_allowArmingWithoutFix (gpsRescueConfig cfg) \<and> \<not> STATE_GPS_FIX_HOME inp
             \<and> \<not> rxIsReceivingSignal inp
      then RESCUE_ABORT
      else if phaseOf s \<noteq> RESCUE_INITIALIZE
              \<and> 1000000 \<le> cmpTimeUs now (previousTimeUs (sanity s))
              \<and> int8_t (min (secondsDoingNothing (sanity s) + 1) 20) = 20
      then RESCUE_ABORT
      else RESCUE_DO_NOTHING)"
proof -
  let ?abort = "cfg_sanityChecks (gpsRescueConfig cfg) = RESCUE_SANITY_ON
         \<or> cfg_sanityChecks (gpsRescueConfig cfg) = RESCUE_SANITY_FS_ONLY \<and> \<not> rxIsReceivingSignal inp
         \<or> cfg_sanityChecks (gpsRescueConfig cfg) \<noteq> RESCUE_SANITY_ON
             \<and> cfg_sanityChecks (gpsRescueConfig cfg) \<noteq> RESCUE_SANITY_FS_ONLY
             \<and> cfg_allowArmingWithoutFix (gpsRescueConfig cfg) \<and> \<not> STATE_GPS_FIX_HOME inp
             \<and> \<not> rxIsReceivingSignal inp"
  let ?every = "sanityEveryCall cfg inp now s"
  let ?entry = "lowSatsCheck cfg inp (flyawayCheck cfg inp
                  (set_sanity (\<lambda>x. x\<lparr>previousTimeUs := now\<rparr>) ?every))"
  have response: "phaseOf (sanityFailureResponse cfg inp s) = (if ?abort then RESCUE_ABORT else RESCUE_DO_NOTHING)"
    using assms(2)
    by (cases "cfg_sanityChecks (gpsRescueConfig cfg)") (simp_all add: failureResponse_phaseOf)
  have every: "phaseOf ?every = (if ?abort then RESCUE_ABORT else RESCUE_DO_NOTHING)"
    using assms(3) response by (simp add: everyCall_phaseOf)
  have entry: "phaseOf ?entry = (if ?abort then RESCUE_ABORT else RESCUE_DO_NOTHING)"
    using every by simp
  have nothing: "phaseOf s \<noteq> RESCUE_INITIALIZE \<Longrightarrow>
      secondsDoingNothing (sanity ?entry) = secondsDoingNothing (sanity s)"
    by (simp add: everyCall_sanity)
  show ?thesis
  proof (cases "phaseOf s = RESCUE_INITIALIZE \<or> cmpTimeUs now (previousTimeUs (sanity s)) < 1000000")
    case True
    then show ?thesis
      using assms(1,3) response by (auto simp add: sanity_phaseOf Let_def)
  next
    case False
    then have "phaseOf (performSanityChecks cfg inp now s) = phaseOf (stuckAltitudeCheck ?entry)"
      using assms(1) by (simp add: sanity_phaseOf Let_def)
    also have "\<dots> = (if ?abort then RESCUE_ABORT
        else if int8_t (min (secondsDoingNothing (sanity s) + 1) 20) = 20
             then RESCUE_ABORT else RESCUE_DO_NOTHING)"
      using entry False by (simp add: stuck_phaseOf Let_def everyCall_sanity)
    finally show ?thesis using False by auto
  qed
qed

theorem sanity_failure_response_witness:
  "phaseOf gpsLostFlyingHome \<noteq> RESCUE_IDLE
   \<and> failureOf gpsLostFlyingHome \<noteq> RESCUE_HEALTHY
   \<and> \<not> crashRecoveryModeActive inputs0
   \<and> phaseOf (performSanityChecks config0 inputs0 0 gpsLostFlyingHome) = RESCUE_DO_NOTHING
   \<and> phaseOf (performSanityChecks config0 (inputs0\<lparr>rxIsReceivingSignal := False\<rparr>) 0 gpsLostFlyingHome)
       = RESCUE_ABORT"
  using sanity_failure_response [of gpsLostFlyingHome inputs0 config0 0]
    sanity_failure_response [of gpsLostFlyingHome "inputs0\<lparr>rxIsReceivingSignal := False\<rparr>" config0 0]
  by (simp add: gpsLostFlyingHome_facts config0_def inputs0_def cmpTimeUs_def)

theorem sanity_failure_in_idle_counterexample:
  "failureOf stoppedAfterGpsLoss \<noteq> RESCUE_HEALTHY
   \<and> phaseOf (performSanityChecks config0 inputs0 0 stoppedAfterGpsLoss) = RESCUE_IDLE
   \<and> failureOf (performSanityChecks config0 inputs0 0 stoppedAfterGpsLoss) = RESCUE_HEALTHY"
  by (simp add: stoppedAfterGpsLoss_def gpsLostFlyingHome_def sanity_idle)

lemma sanity_initialize:
  assumes "phaseOf s = RESCUE_INITIALIZE"
  shows "performSanityChecks cfg inp now s = sanityEveryCall cfg inp now s"
  using assms by (simp add: performSanityChecks_def Let_def everyCall_sanity cmpTimeUs_def)

lemma start_activation:
  assumes "FLIGHT_MODE_GPS_RESCUE inp" and "phaseOf s = RESCUE_IDLE"
  shows "gpsRescueUpdate_start cfg inp s =
           sanityEveryCall cfg inp (micros_start inp) (rescueAttainPosition cfg inp (rescueStart s))"
  using assms by (simp add: gpsRescueUpdate_start_def sanity_initialize)

lemma sanity_abort:
  assumes "phaseOf s = RESCUE_ABORT" and "failureOf s = RESCUE_HEALTHY"
    and "\<not> crashRecoveryModeActive inp"
  shows "phaseOf (performSanityChecks cfg inp now s) = RESCUE_ABORT"
  using assms
  by (simp add: sanity_phaseOf Let_def failureResponse_phaseOf stuck_phaseOf everyCall_phaseOf)

lemma switch_abort:
  assumes "phaseOf s = RESCUE_ABORT"
  shows "gpsRescueUpdate_switch cfg inp s =
           rescueStop (set_intent (\<lambda>i. i\<lparr>secondsFailing := 0\<rparr>)
             (add_calls [setArmingDisabled_ARM_SWITCH, disarm DISARM_REASON_FAILSAFE] s))"
  using assms by (simp add: gpsRescueUpdate_switch_def Let_def)

lemma switch_initialize_on_ground:
  assumes "phaseOf s = RESCUE_INITIALIZE" and "STATE_GPS_FIX_HOME inp"
    and "distanceToHomeM (sensorOf s) < real_of_int (cfg_minRescueDth (gpsRescueConfig cfg))"
    and "distanceToHomeM (sensorOf s) < 5"
    and "currentAltitudeCm (sensorOf s) < 100 * real_of_int (cfg_targetLandingAltitudeM (gpsRescueConfig cfg))"
  shows "gpsRescueUpdate_switch cfg inp s =
           set_phase RESCUE_ABORT
             (set_intent (\<lambda>i. i\<lparr>targetLandingAltitudeCm :=
                100 * real_of_int (cfg_targetLandingAltitudeM (gpsRescueConfig cfg))\<rparr>) s)"
  using assms by (simp add: gpsRescueUpdate_switch_def Let_def)

text \<open>
  Claim C3, as amended. Rescue mode is switched on while the module is idle
  and healthy, the last GPS data giving a distance to home below 5 m and below
  \<open>minRescueDth\<close>, the altitude below the landing altitude (the
  scenario: 3 m, 50 cm, landing altitude 1 m, \<open>minRescueDth\<close> 20), with
  a home fix and no crash recovery. The first call of \<^verbatim>\<open>gpsRescueUpdate\<close> then
  ends with the phase at abort and has called neither \<^verbatim>\<open>setArmingDisabled\<close> nor
  \<^verbatim>\<open>disarm\<close>; the next call (rescue mode still on) calls
  \<^verbatim>\<open>setArmingDisabled\<close> and \<^verbatim>\<open>disarm\<close> with reason failsafe, resets
  \<open>secondsFailing\<close> and ends with the phase at idle. So the abort phase and
  the disarm call are never seen together at the end of a call.
\<close>

theorem abort_then_disarm:
  assumes "phaseOf s = RESCUE_IDLE" and "failureOf s = RESCUE_HEALTHY"
    and "healthy (sensorOf s)" and "\<not> newGPSData s"
    and "FLIGHT_MODE_GPS_RESCUE inp" and "STATE_GPS_FIX_HOME inp"
    and "\<not> crashRecoveryModeActive inp"
    and "distanceToHomeM (sensorOf s) < real_of_int (cfg_minRescueDth (gpsRescueConfig cfg))"
    and "distanceToHomeM (sensorOf s) < 5"
    and "getAltitude inp < 100 * real_of_int (cfg_targetLandingAltitudeM (gpsRescueConfig cfg))"
    and "FLIGHT_MODE_GPS_RESCUE (snd t)"
  shows "phaseOf (gpsRescueUpdate cfg inp s) = RESCUE_ABORT
       \<and> calls (gpsRescueUpdate cfg inp s) = calls s
       \<and> phaseOf (step cfg t (gpsRescueUpdate cfg inp s)) = RESCUE_IDLE
       \<and> calls (step cfg t (gpsRescueUpdate cfg inp s))
           = calls s @ [setArmingDisabled_ARM_SWITCH, disarm DISARM_REASON_FAILSAFE]
       \<and> secondsFailing (intentOf (step cfg t (gpsRescueUpdate cfg inp s))) = 0"
proof -
  define a where "a = gpsRescueUpdate_start cfg inp s"
  define b where "b = gpsRescueUpdate_sensed cfg inp s"
  define c where "c = gpsRescueUpdate_switch cfg inp b"
  define s1 where "s1 = gpsRescueUpdate cfg inp s"
  have a: "a = sanityEveryCall cfg inp (micros_start inp) (rescueAttainPosition cfg inp (rescueStart s))"
    unfolding a_def using assms(5,1) by (rule start_activation)
  have a_phase: "phaseOf a = RESCUE_INITIALIZE"
    using assms(2,7) by (simp add: a everyCall_phaseOf failureResponse_phaseOf)
  have a_failure: "failureOf a = RESCUE_HEALTHY"
    using assms(2,3) by (simp add: a everyCall_failureOf)
  have a_calls: "calls a = calls s"
    using assms(7) by (simp add: a everyCall_calls)
  have a_sensor: "sensorOf a = sensorOf s" by (simp add: a)
  have a_new: "\<not> newGPSData a" using assms(4) by (simp add: a_def)
  have b_phase: "phaseOf b = RESCUE_INITIALIZE" and b_failure: "failureOf b = RESCUE_HEALTHY"
    and b_calls: "calls b = calls s"
    using a_phase a_failure a_calls by (simp_all add: b_def a_def)
  have b_dist: "distanceToHomeM (sensorOf b) = distanceToHomeM (sensorOf s)"
    using sensorUpdate_no_gps(2) [OF a_new, of inp] by (simp add: b_def a_def [symmetric] a_sensor)
  have b_alt: "currentAltitudeCm (sensorOf b) = getAltitude inp"
    by (simp add: b_def)
  have c: "c = set_phase RESCUE_ABORT
             (set_intent (\<lambda>i. i\<lparr>targetLandingAltitudeCm :=
                100 * real_of_int (cfg_targetLandingAltitudeM (gpsRescueConfig cfg))\<rparr>) b)"
    unfolding c_def using b_phase assms(6,8,9,10)
    by (intro switch_initialize_on_ground) (simp_all add: b_dist b_alt)
  have c_facts: "phaseOf c = RESCUE_ABORT" "failureOf c = RESCUE_HEALTHY" "calls c = calls s"
    using b_failure b_calls by (simp_all add: c)
  have s1: "s1 = (rescueAttainPosition cfg inp (performSanityChecks cfg inp (micros_sanity inp) c))
                   \<lparr>newGPSData := False\<rparr>"
    by (simp add: s1_def gpsRescueUpdate_def Let_def c_def b_def)
  have s1_phase: "phaseOf s1 = RESCUE_ABORT"
    using sanity_abort [OF c_facts(1,2) assms(7)] by (simp add: s1)
  have s1_calls: "calls s1 = calls s"
    using c_facts(3) assms(7) by (simp add: s1 sanity_calls)
  define u where "u = (if fst t then gpsRescueNewGpsData s1 else s1)"
  have u_facts: "phaseOf u = RESCUE_ABORT" "calls u = calls s"
    using s1_phase s1_calls by (simp_all add: u_def)
  have u_start: "gpsRescueUpdate_start cfg (snd t) u = u"
    using assms(11) u_facts(1) by (simp add: start_running)
  define d where "d = gpsRescueUpdate_sensed cfg (snd t) u"
  have d_facts: "phaseOf d = RESCUE_ABORT" "calls d = calls s"
    using u_facts by (simp_all add: d_def u_start)
  define e where "e = gpsRescueUpdate_switch cfg (snd t) d"
  have e: "e = rescueStop (set_intent (\<lambda>i. i\<lparr>secondsFailing := 0\<rparr>)
             (add_calls [setArmingDisabled_ARM_SWITCH, disarm DISARM_REASON_FAILSAFE] d))"
    unfolding e_def using d_facts(1) by (rule switch_abort)
  have e_facts: "phaseOf e = RESCUE_IDLE" "secondsFailing (intentOf e) = 0"
    "calls e = calls s @ [setArmingDisabled_ARM_SWITCH, disarm DISARM_REASON_FAILSAFE]"
    using d_facts(2) by (simp_all add: e)
  have s2: "step cfg t s1 =
      (rescueAttainPosition cfg (snd t) (performSanityChecks cfg (snd t) (micros_sanity (snd t)) e))
        \<lparr>newGPSData := False\<rparr>"
    by (simp add: step_def gpsRescueUpdate_def Let_def e_def d_def u_def)
  have s2_facts: "phaseOf (step cfg t s1) = RESCUE_IDLE"
    "secondsFailing (intentOf (step cfg t s1)) = 0"
    "calls (step cfg t s1) = calls s @ [setArmingDisabled_ARM_SWITCH, disarm DISARM_REASON_FAILSAFE]"
    using e_facts by (simp_all add: s2 sanity_idle sanity_calls attain_intentOf)
  show ?thesis
    using s1_phase s1_calls s2_facts unfolding s1_def by simp
qed

theorem abort_then_disarm_witness:
  "phaseOf groundReady = RESCUE_IDLE \<and> failureOf groundReady = RESCUE_HEALTHY
   \<and> healthy (sensorOf groundReady) \<and> distanceToHomeM (sensorOf groundReady) = 3
   \<and> getAltitude (at_time 10000 tickGroundRescue) = 50
   \<and> cfg_targetLandingAltitudeM (gpsRescueConfig config0) = 1
   \<and> cfg_minRescueDth (gpsRescueConfig config0) = 20
   \<and> phaseOf groundActivated = RESCUE_ABORT
   \<and> calls groundActivated = []
   \<and> phaseOf groundAborted = RESCUE_IDLE
   \<and> calls groundAborted = [setArmingDisabled_ARM_SWITCH, disarm DISARM_REASON_FAILSAFE]"
  using abort_then_disarm [where s = groundReady and inp = "at_time 10000 tickGroundRescue"
      and cfg = config0 and t = "(False, at_time 20000 tickGroundRescue)"]
  by (simp add: groundReady_facts groundActivated_def groundAborted_def config0_def at_time_def
      tickGroundRescue_def tickGround_def inputs0_def)

theorem abort_without_disarm_counterexample:
  "phaseOf groundActivated = RESCUE_ABORT
   \<and> disarm DISARM_REASON_FAILSAFE \<notin> set (calls groundActivated)
   \<and> disarm DISARM_REASON_FAILSAFE \<in> set (calls groundAborted)
   \<and> phaseOf groundAborted = RESCUE_IDLE"
  by (simp add: groundAborted_def groundActivated_def groundReady_def example_defs model_defs
      access_defs Let_def)




text \<open>
  Claim C5, as amended. After every call of \<^verbatim>\<open>gpsRescueUpdate\<close> that ends with
  the phase at idle, \<^verbatim>\<open>gpsRescueAngle[AI_PITCH]\<close> and
  \<^verbatim>\<open>gpsRescueAngle[AI_ROLL]\<close> are 0 and \<^verbatim>\<open>rescueThrottle\<close> is
  \<^verbatim>\<open>rcCommand[THROTTLE]\<close>; the failure is healthy provided crash recovery is
  not active during the call. With crash recovery active the supervisor stops
  a running rescue itself, after its idle test, and the failure it holds or
  sets then survives the call (the counterexample below).
\<close>

theorem idle_after_update:
  assumes "phaseOf (gpsRescueUpdate cfg inp s) = RESCUE_IDLE"
  shows "gpsRescueAngle (gpsRescueUpdate cfg inp s) AI_PITCH = 0
       \<and> gpsRescueAngle (gpsRescueUpdate cfg inp s) AI_ROLL = 0
       \<and> rescueThrottle (gpsRescueUpdate cfg inp s) = rcCommand_THROTTLE inp
       \<and> (\<not> crashRecoveryModeActive inp \<longrightarrow> failureOf (gpsRescueUpdate cfg inp s) = RESCUE_HEALTHY)"
proof -
  define s1 where "s1 = gpsRescueUpdate_switch cfg inp (gpsRescueUpdate_sensed cfg inp s)"
  define s2 where "s2 = performSanityChecks cfg inp (micros_sanity inp) s1"
  have u: "gpsRescueUpdate cfg inp s = (rescueAttainPosition cfg inp s2)\<lparr>newGPSData := False\<rparr>"
    by (simp add: gpsRescueUpdate_def Let_def s1_def s2_def)
  have idle: "phaseOf s2 = RESCUE_IDLE" using assms by (simp add: u)
  have out: "rescueAttainPosition cfg inp s2 =
       s2\<lparr>gpsRescueAngle := (gpsRescueAngle s2)(AI_PITCH := 0, AI_ROLL := 0),
         rescueThrottle := rcCommand_THROTTLE inp\<rparr>"
    using idle by (rule attain_idle)
  have healthy: "failureOf s2 = RESCUE_HEALTHY" if "\<not> crashRecoveryModeActive inp"
  proof -
    have "phaseOf s1 = RESCUE_IDLE"
      using idle that unfolding s2_def by (rule sanity_leaves_idle_by_crash_only)
    then show ?thesis by (simp add: s2_def sanity_idle)
  qed
  show ?thesis
    using healthy by (simp add: u out)
qed

theorem idle_after_update_witness:
  "phaseOf (gpsRescueUpdate config0 tickIdle idleState) = RESCUE_IDLE
   \<and> rescueThrottle (gpsRescueUpdate config0 tickIdle idleState) = 1500
   \<and> failureOf (gpsRescueUpdate config0 tickIdle idleState) = RESCUE_HEALTHY"
proof -
  have p: "phaseOf (gpsRescueUpdate config0 tickIdle idleState) = RESCUE_IDLE"
    by (simp add: gpsRescueUpdate_def Let_def gpsRescueUpdate_start_def tickIdle_def inputs0_def
        gpsRescueUpdate_switch_def sanity_idle)
  from idle_after_update [OF p] p show ?thesis
    by (simp add: tickIdle_def inputs0_def)
qed

theorem idle_with_failure_counterexample:
  "phaseOf crashTrace = RESCUE_IDLE \<and> failureOf crashTrace = RESCUE_GPSLOST"
  by (simp add: crashTrace_def config0_def inputs0_def idleState_def at_time_def tickIdle_def
      tickRescue_def tickCrash_def model_defs access_defs Let_def)

text \<open>
  Claim C6. On a tick with \<^verbatim>\<open>newGPSData\<close> false (no GPS packet since the
  previous call): \<^verbatim>\<open>sensorUpdate\<close> leaves \<open>distanceToHomeCm\<close>,
  \<open>distanceToHomeM\<close>, \<open>groundSpeedCmS\<close>, \<open>gpsDataIntervalSeconds\<close>
  and \<open>velocityToHomeCmS\<close> (and its own \<open>prevDistanceToHomeCm\<close>)
  unchanged, and so does the whole call of \<^verbatim>\<open>gpsRescueUpdate\<close>;
  \<^verbatim>\<open>rescueAttainPosition\<close> does not run the velocity PID: \<open>pitchAdjustment\<close>
  and the D-term filter are unchanged, and so are the integrator
  \<open>velocityI\<close> and \<open>previousVelocityError\<close> (outside the initialize
  phase, whose entry action zeroes them); in the phases that run the
  controllers, \<^verbatim>\<open>gpsRescueAngle[AI_PITCH]\<close> is the PT3 upsample filter applied to
  the held \<open>pitchAdjustment\<close>.
\<close>

theorem no_new_gps_data:
  assumes "\<not> newGPSData s"
  shows "distanceToHomeCm (sensorOf (sensorUpdate inp s)) = distanceToHomeCm (sensorOf s)
       \<and> distanceToHomeM (sensorOf (sensorUpdate inp s)) = distanceToHomeM (sensorOf s)
       \<and> groundSpeedCmS (sensorOf (sensorUpdate inp s)) = groundSpeedCmS (sensorOf s)
       \<and> gpsDataIntervalSeconds (sensorOf (sensorUpdate inp s)) = gpsDataIntervalSeconds (sensorOf s)
       \<and> velocityToHomeCmS (sensorOf (sensorUpdate inp s)) = velocityToHomeCmS (sensorOf s)
       \<and> prevDistanceToHomeCm (sensorStatics (sensorUpdate inp s)) = prevDistanceToHomeCm (sensorStatics s)
       \<and> distanceToHomeCm (sensorOf (gpsRescueUpdate cfg inp s)) = distanceToHomeCm (sensorOf s)
       \<and> distanceToHomeM (sensorOf (gpsRescueUpdate cfg inp s)) = distanceToHomeM (sensorOf s)
       \<and> groundSpeedCmS (sensorOf (gpsRescueUpdate cfg inp s)) = groundSpeedCmS (sensorOf s)
       \<and> gpsDataIntervalSeconds (sensorOf (gpsRescueUpdate cfg inp s)) = gpsDataIntervalSeconds (sensorOf s)
       \<and> velocityToHomeCmS (sensorOf (gpsRescueUpdate cfg inp s)) = velocityToHomeCmS (sensorOf s)
       \<and> pitchAdjustment (attain (rescueAttainPosition cfg inp s)) = pitchAdjustment (attain s)
       \<and> velocityDLpf (rescueAttainPosition cfg inp s) = velocityDLpf s
       \<and> pitchAdjustment (attain (gpsRescueUpdate cfg inp s)) = pitchAdjustment (attain s)
       \<and> (phaseOf s \<noteq> RESCUE_INITIALIZE \<longrightarrow>
            velocityI (attain (rescueAttainPosition cfg inp s)) = velocityI (attain s)
            \<and> previousVelocityError (attain (rescueAttainPosition cfg inp s))
                = previousVelocityError (attain s))
       \<and> (phaseOf s \<noteq> RESCUE_IDLE \<and> phaseOf s \<noteq> RESCUE_INITIALIZE \<and> phaseOf s \<noteq> RESCUE_DO_NOTHING \<longrightarrow>
            gpsRescueAngle (rescueAttainPosition cfg inp s) AI_PITCH
              = snd (pt3FilterApply (velocityUpsampleLpf s) (pitchAdjustment (attain s))))"
proof -
  let ?b = "gpsRescueUpdate_start cfg inp s"
  have nb: "\<not> newGPSData ?b" using assms by simp
  let ?q = "performSanityChecks cfg inp (micros_sanity inp)
              (gpsRescueUpdate_switch cfg inp (gpsRescueUpdate_sensed cfg inp s))"
  have nq: "\<not> newGPSData ?q" using assms by simp
  have pa: "pitchAdjustment (attain (gpsRescueUpdate cfg inp s)) = pitchAdjustment (attain s)"
    using attain_no_gps(1) [OF nq, of cfg inp] start_pitchAdjustment [OF assms, of cfg inp]
    by (simp add: gpsRescueUpdate_def Let_def)
  show ?thesis
    using sensorUpdate_no_gps [OF assms, of inp] sensorUpdate_no_gps [OF nb, of inp]
      attain_no_gps [OF assms, of cfg inp] pa
    by (simp add: update_sensorOf)
qed

theorem no_new_gps_data_witness:
  "\<not> newGPSData flyingHome
   \<and> distanceToHomeM (sensorOf (gpsRescueUpdate config0 tickRescue flyingHome)) = 99
   \<and> pitchAdjustment (attain (gpsRescueUpdate config0 tickRescue flyingHome)) = 0
   \<and> phaseOf flyingHome \<noteq> RESCUE_INITIALIZE"
  using no_new_gps_data [of flyingHome tickRescue config0]
  by (simp add: flyingHome_facts)




text \<open>
  Claim C8. While flying home, at a 1 Hz pass of the supervisor (entered
  healthy, no crash recovery, the counter within its range 0 to 15):
  \<open>secondsFailing\<close> goes up by one when
  \<open>previousDistanceToHomeCm - distanceToHomeCm < 0.5 * targetVelocityCmS\<close>
  and down by one otherwise, clamped to 0 to 15 (\<open>n\<close>). When it
  reaches 15 and a magnetometer is compiled in, present and enabled and
  \<open>magForceDisable\<close> is not yet set, \<open>magForceDisable\<close> is set and
  the counter restarts at 0; otherwise the flyaway check sets the failure to
  flyaway (which the low-satellite check of the same pass may overwrite with
  low-sats). The flag, once set, stays set over every call of the task, so the
  retry happens at most once.
\<close>

theorem flyaway_detection:
  assumes "phaseOf s = RESCUE_FLY_HOME"
    and "failureOf s = RESCUE_HEALTHY"
    and "\<not> crashRecoveryModeActive inp"
    and "1000000 \<le> cmpTimeUs now (previousTimeUs (sanity s))"
    and "0 \<le> secondsFailing (intentOf s)" and "secondsFailing (intentOf s) \<le> 15"
  shows "(let n = constrain (secondsFailing (intentOf s)
                    + (if previousDistanceToHomeCm (sanity s) - distanceToHomeCm (sensorOf s)
                          < 0.5 * targetVelocityCmS (intentOf s) then 1 else - 1)) 0 15;
              retry = (USE_MAG cfg \<and> sensors_SENSOR_MAG inp \<and> cfg_useMag (gpsRescueConfig cfg)
                       \<and> \<not> magForceDisable s);
              s' = performSanityChecks cfg inp now s
          in 0 \<le> n \<and> n \<le> 15
           \<and> secondsFailing (intentOf s') = (if n = 15 \<and> retry then 0 else n)
           \<and> magForceDisable s' = (magForceDisable s \<or> n = 15 \<and> retry)
           \<and> (if n = 15 \<and> \<not> retry
               then failureOf (flyawayCheck cfg inp s) = RESCUE_FLYAWAY
                  \<and> (failureOf s' = RESCUE_FLYAWAY
                      \<or> failureOf s' = RESCUE_LOWSATS \<and> secondsLowSats (sanity s') = 10)
               else failureOf (flyawayCheck cfg inp s) = RESCUE_HEALTHY)
           \<and> phaseOf s' = RESCUE_FLY_HOME)
         \<and> (magForceDisable s \<longrightarrow> magForceDisable (gpsRescueUpdate cfg inp s))"
proof -
  define e where "e = set_sanity (\<lambda>x. x\<lparr>previousTimeUs := now\<rparr>) (sanityEveryCall cfg inp now s)"
  define n where "n = constrain (secondsFailing (intentOf s)
                    + (if previousDistanceToHomeCm (sanity s) - distanceToHomeCm (sensorOf s)
                          < 0.5 * targetVelocityCmS (intentOf s) then 1 else - 1)) 0 15"
  define retry where "retry = (USE_MAG cfg \<and> sensors_SENSOR_MAG inp \<and> cfg_useMag (gpsRescueConfig cfg)
                       \<and> \<not> magForceDisable s)"
  have resp: "phaseOf (sanityFailureResponse cfg inp s) = RESCUE_FLY_HOME"
    using assms(1,2) by (simp add: failureResponse_phaseOf)
  have e_phase: "phaseOf e = RESCUE_FLY_HOME"
    using assms(3) resp by (simp add: e_def everyCall_phaseOf)
  have e_fields: "secondsFailing (intentOf e) = secondsFailing (intentOf s)"
    "previousDistanceToHomeCm (sanity e) = previousDistanceToHomeCm (sanity s)"
    "distanceToHomeCm (sensorOf e) = distanceToHomeCm (sensorOf s)"
    "targetVelocityCmS (intentOf e) = targetVelocityCmS (intentOf s)"
    "magForceDisable e = magForceDisable s"
    using assms(1) by (simp_all add: e_def everyCall_sanity)
  have run: "performSanityChecks cfg inp now s = stuckAltitudeCheck (lowSatsCheck cfg inp (flyawayCheck cfg inp e))"
    using assms(1,4) by (simp add: performSanityChecks_def Let_def e_def everyCall_sanity)
  have sf: "secondsFailing (intentOf (flyawayCheck cfg inp e)) = (if n = 15 \<and> retry then 0 else n)"
    using flyaway_flying(1) [of e cfg inp] e_phase assms(5,6)
    by (simp add: e_fields n_def retry_def Let_def)
  have mag: "magForceDisable (flyawayCheck cfg inp e) = (magForceDisable s \<or> n = 15 \<and> retry)"
    using flyaway_flying(2) [of e cfg inp] e_phase assms(5,6)
    by (auto simp add: e_fields n_def retry_def)
  have fl_e: "failureOf (flyawayCheck cfg inp e) = (if n = 15 \<and> \<not> retry then RESCUE_FLYAWAY else failureOf e)"
    using flyaway_flying(3) [of e cfg inp] e_phase assms(5,6)
    by (simp add: e_fields n_def retry_def)
  have fl_s: "failureOf (flyawayCheck cfg inp s) = (if n = 15 \<and> \<not> retry then RESCUE_FLYAWAY else RESCUE_HEALTHY)"
    using flyaway_flying(3) [of s cfg inp] assms(1,2,5,6)
    by (simp add: n_def retry_def)
  have nb: "0 \<le> n" "n \<le> 15"
    using constrain_bounds [of 0 15] by (simp_all add: n_def)
  have final_sf: "secondsFailing (intentOf (performSanityChecks cfg inp now s)) = (if n = 15 \<and> retry then 0 else n)"
    using e_phase sf by (simp add: run stuck_secondsFailing Let_def)
  have final_mag: "magForceDisable (performSanityChecks cfg inp now s) = (magForceDisable s \<or> n = 15 \<and> retry)"
    using mag by (simp add: run)
  have final_phase: "phaseOf (performSanityChecks cfg inp now s) = RESCUE_FLY_HOME"
    using e_phase by (simp add: run stuck_phaseOf Let_def)
  have final_fail: "failureOf (performSanityChecks cfg inp now s) = RESCUE_FLYAWAY
      \<or> failureOf (performSanityChecks cfg inp now s) = RESCUE_LOWSATS
        \<and> secondsLowSats (sanity (performSanityChecks cfg inp now s)) = 10"
    if "n = 15" and "\<not> retry"
    using that fl_e by (simp add: run lowSats_failureOf)
  show ?thesis
    unfolding Let_def n_def [symmetric] retry_def [symmetric]
    using nb final_sf final_mag final_phase final_fail fl_s update_magForceDisable_mono [of s cfg inp]
    by auto
qed


theorem flyaway_detection_witness:
  "phaseOf flyingHome = RESCUE_FLY_HOME \<and> failureOf flyingHome = RESCUE_HEALTHY
   \<and> \<not> crashRecoveryModeActive inputs0
   \<and> 1000000 \<le> cmpTimeUs 1000000 (previousTimeUs (sanity flyingHome))
   \<and> secondsFailing (intentOf flyingHome) = 14
   \<and> secondsFailing (intentOf (performSanityChecks config0 inputs0 1000000 flyingHome)) = 15
   \<and> failureOf (flyawayCheck config0 inputs0 flyingHome) = RESCUE_FLYAWAY
   \<and> phaseOf (performSanityChecks config0 inputs0 1000000 flyingHome) = RESCUE_FLY_HOME
   \<and> secondsFailing (intentOf (performSanityChecks config0 (inputs0\<lparr>sensors_SENSOR_MAG := True\<rparr>)
         1000000 flyingHome)) = 0
   \<and> magForceDisable (performSanityChecks config0 (inputs0\<lparr>sensors_SENSOR_MAG := True\<rparr>)
         1000000 flyingHome)"
  using flyaway_detection [where s = flyingHome and inp = inputs0 and now = 1000000 and cfg = config0]
    flyaway_detection [where s = flyingHome and inp = "inputs0\<lparr>sensors_SENSOR_MAG := True\<rparr>"
      and now = 1000000 and cfg = config0]
  by (simp add: flyingHome_facts config0_def inputs0_def cmpTimeUs_def constrain_def Let_def)

text \<open>
  Claim C9. \<^verbatim>\<open>sensorUpdate\<close> recomputes \<open>accMagnitude\<close> exactly when the
  phase is landing and leaves it unchanged otherwise; nothing else in the task
  writes it, so over any run the field holds the value computed on the last
  tick whose sensor update found the phase at landing, or the value it had
  before the run. In the do-nothing phase the call therefore compares that
  held value with \<open>disarmThreshold\<close>: it disarms with reason GPS rescue
  exactly when the held \<open>accMagnitude\<close> exceeds the threshold.
\<close>

theorem accMagnitude_held:
  "accMagnitude (sensorOf (sensorUpdate inp s)) =
     (if phaseOf s = RESCUE_LANDING then accMagnitudeReading inp else accMagnitude (sensorOf s))
   \<and> accMagnitude (sensorOf (run cfg s ts)) = heldAccMagnitude cfg (accMagnitude (sensorOf s)) s ts
   \<and> (phaseOf s = RESCUE_DO_NOTHING \<and> FLIGHT_MODE_GPS_RESCUE inp \<longrightarrow>
        accMagnitude (sensorOf (gpsRescueUpdate cfg inp s)) = accMagnitude (sensorOf s)
        \<and> (disarm DISARM_REASON_GPS_RESCUE \<in> set (calls (gpsRescueUpdate cfg inp s))
             \<longleftrightarrow> disarm DISARM_REASON_GPS_RESCUE \<in> set (calls s)
                  \<or> disarmThreshold (intentOf s) < accMagnitude (sensorOf s)))"
proof -
  have impact: "phaseOf s = RESCUE_DO_NOTHING \<and> FLIGHT_MODE_GPS_RESCUE inp \<longrightarrow>
          (disarm DISARM_REASON_GPS_RESCUE \<in> set (calls (gpsRescueUpdate cfg inp s))
             \<longleftrightarrow> disarm DISARM_REASON_GPS_RESCUE \<in> set (calls s)
                  \<or> disarmThreshold (intentOf s) < accMagnitude (sensorOf s))"
  proof (intro impI, elim conjE)
    assume p: "phaseOf s = RESCUE_DO_NOTHING" and m: "FLIGHT_MODE_GPS_RESCUE inp"
    let ?x = "gpsRescueUpdate_sensed cfg inp s"
    have st: "gpsRescueUpdate_start cfg inp s = s" using p m by (simp add: start_running)
    have px: "phaseOf ?x = RESCUE_DO_NOTHING" using p by (simp add: st)
    have acc: "accMagnitude (sensorOf ?x) = accMagnitude (sensorOf s)"
      using p by (simp add: st sensorUpdate_accMagnitude)
    have thr: "disarmThreshold (intentOf ?x) = disarmThreshold (intentOf s)"
      by (simp add: st)
    have cx: "calls ?x = calls s" by (simp add: st)
    show "disarm DISARM_REASON_GPS_RESCUE \<in> set (calls (gpsRescueUpdate cfg inp s))
             \<longleftrightarrow> disarm DISARM_REASON_GPS_RESCUE \<in> set (calls s)
                  \<or> disarmThreshold (intentOf s) < accMagnitude (sensorOf s)"
      using p
      by (simp add: update_calls sanity_calls switch_doing_nothing [OF px] disarmOnImpact_calls
          st sensorUpdate_accMagnitude)
  qed
  have held: "phaseOf s = RESCUE_DO_NOTHING \<and> FLIGHT_MODE_GPS_RESCUE inp \<longrightarrow>
      accMagnitude (sensorOf (gpsRescueUpdate cfg inp s)) = accMagnitude (sensorOf s)"
    by (simp add: update_accMagnitude)
  from sensorUpdate_accMagnitude [of inp s] run_accMagnitude [of cfg s ts] held impact
  show ?thesis by blast
qed

theorem accMagnitude_held_witness:
  "phaseOf doingNothing = RESCUE_DO_NOTHING \<and> FLIGHT_MODE_GPS_RESCUE tickImpact
   \<and> accMagnitude (sensorOf (gpsRescueUpdate config0 tickImpact doingNothing)) = 5 / 2
   \<and> disarm DISARM_REASON_GPS_RESCUE \<in> set (calls (gpsRescueUpdate config0 tickImpact doingNothing))"
  using accMagnitude_held [of tickImpact doingNothing config0 "[]"]
  by (simp add: doingNothing_facts tickImpact_def tickRescue_def tickIdle_def inputs0_def)

subsection \<open>C10: the divisor of the stuck-altitude ratio\<close>







end
